theory Spec2Isabelle
  imports Complex_Main "HOL-Library.Char_ord" "HOL-Library.List_Lexorder"
begin

section \<open>Values, dictionaries and exceptions\<close>

text \<open>
  The documents (parsed YAML) and the index store (parsed JSON) are trees of dynamic
  values. A Python dict keeps its insertion order, so it is an association list with the
  newest entry last; a well-formed dict has no key twice, and a lookup takes the first
  entry of a key. Strings are ASCII text. Python compares \<open>True\<close> equal to \<open>1\<close>; the
  model compares values structurally, which is the same on the strings that serve as
  entity ids and type names.
\<close>

datatype yval =
    YNull
  | YBool bool
  | YInt int
  | YStr string
  | YList "yval list"
  | YDict "(string \<times> yval) list"

type_synonym jdict = "(string \<times> yval) list"

text \<open>The exceptions the modelled code can raise; \<open>Inl\<close> of a result is a raised exception.\<close>

datatype pyerr =
    ValueError string
  | KeyError string
  | TypeError
  | AttributeError

definition bindE :: "pyerr + 'a \<Rightarrow> ('a \<Rightarrow> pyerr + 'b) \<Rightarrow> pyerr + 'b" where
  "bindE m f = (case m of Inl e \<Rightarrow> Inl e | Inr x \<Rightarrow> f x)"

text \<open>\<open>d.get(k)\<close>, \<open>d.get(k, default)\<close> and \<open>d[k]\<close> on a dict.\<close>

definition dget :: "jdict \<Rightarrow> string \<Rightarrow> yval" where
  "dget d k = (case map_of d k of None \<Rightarrow> YNull | Some v \<Rightarrow> v)"

definition dget_or :: "jdict \<Rightarrow> string \<Rightarrow> yval \<Rightarrow> yval" where
  "dget_or d k dflt = (case map_of d k of None \<Rightarrow> dflt | Some v \<Rightarrow> v)"

definition ditem :: "jdict \<Rightarrow> string \<Rightarrow> pyerr + yval" where
  "ditem d k = (case map_of d k of None \<Rightarrow> Inl (KeyError k) | Some v \<Rightarrow> Inr v)"

text \<open>Lists and dicts are unhashable: as a dict key or a set member they raise TypeError.\<close>

fun hashable :: "yval \<Rightarrow> bool" where
  "hashable (YList _) = False"
| "hashable (YDict _) = False"
| "hashable _ = True"

fun is_str :: "yval \<Rightarrow> bool" where
  "is_str (YStr _) = True"
| "is_str _ = False"

section \<open>Impact Analyzer (impact-analyzer.py)\<close>

text \<open>
  \<open>ImpactItem\<close> without its \<open>description\<close>, a display text assembled from the same
  values; where building that text can raise, the model raises too.
\<close>

record impact_item =
  entity_id :: yval
  entity_type :: yval
  impact_type :: string
  severity :: string
  path :: "yval list"
  recommendations :: "string list"

text \<open>
  The analyzer's state after \<open>__init__\<close>: the entities and relationships loaded from the
  index store and \<open>entity_index = {e['id']: e for e in entities}\<close>.
\<close>

record graph =
  entities :: "jdict list"
  relationships :: "jdict list"

record analyzer = graph +
  entity_index :: "yval \<rightharpoonup> jdict"

fun build_index :: "jdict list \<Rightarrow> (yval \<rightharpoonup> jdict) \<Rightarrow> pyerr + (yval \<rightharpoonup> jdict)" where
  "build_index [] m = Inr m"
| "build_index (e # es) m =
     (case map_of e ''id'' of
        None \<Rightarrow> Inl (KeyError ''id'')
      | Some k \<Rightarrow> if hashable k then build_index es (m(k \<mapsto> e)) else Inl TypeError)"

definition analyzer_init :: "jdict list \<Rightarrow> jdict list \<Rightarrow> pyerr + analyzer" where
  "analyzer_init ents rels =
     bindE (build_index ents Map.empty)
       (\<lambda>idx. Inr \<lparr>entities = ents, relationships = rels, entity_index = idx\<rparr>)"

text \<open>\<open>self.entity_index.get(k)\<close>, and the truth value of what it returns.\<close>

definition index_get :: "(yval \<rightharpoonup> jdict) \<Rightarrow> yval \<Rightarrow> pyerr + jdict option" where
  "index_get idx k = (if hashable k then Inr (idx k) else Inl TypeError)"

fun found :: "jdict option \<Rightarrow> bool" where
  "found None = False"
| "found (Some e) = (e \<noteq> [])"

definition determine_impact_type :: "jdict \<Rightarrow> string \<Rightarrow> string" where
  "determine_impact_type relationship ctype =
     (let rel_type = dget_or relationship ''type'' (YStr ''unknown'') in
      if rel_type = YStr ''implements'' then ''implementation_change''
      else if rel_type = YStr ''depends_on'' then ''dependency_impact''
      else if rel_type = YStr ''validates'' then ''contract_validation''
      else if rel_type = YStr ''extends'' then ''extension_impact''
      else ''general_impact'')"

definition calculate_impact_severity :: "jdict \<Rightarrow> jdict \<Rightarrow> string \<Rightarrow> string" where
  "calculate_impact_severity relationship affected_entity ctype =
     (let base_severity = (1::nat);
          rel_type = dget_or relationship ''type'' (YStr ''unknown'');
          base_severity =
            (if rel_type \<in> set [YStr ''implements'', YStr ''validates''] then base_severity + 2
             else if rel_type = YStr ''depends_on'' then base_severity + 1
             else base_severity);
          entity_type = dget_or affected_entity ''type'' (YStr ''unknown'');
          base_severity =
            (if entity_type \<in> set [YStr ''functional_requirement'', YStr ''contract'']
             then base_severity + 2
             else if entity_type = YStr ''unit_of_work'' then base_severity + 1
             else base_severity);
          base_severity =
            (if ctype = ''removal'' then base_severity + 2
             else if ctype = ''major_modification'' then base_severity + 1
             else base_severity)
      in if base_severity \<ge> 6 then ''critical''
         else if base_severity \<ge> 4 then ''high''
         else if base_severity \<ge> 2 then ''medium''
         else ''low'')"

definition generate_impact_recommendations :: "jdict \<Rightarrow> jdict \<Rightarrow> string \<Rightarrow> string list" where
  "generate_impact_recommendations relationship affected_entity ctype =
     (let rel_type = dget_or relationship ''type'' (YStr ''unknown'') in
      if rel_type = YStr ''implements'' then
        [''Update implementation to match changes'',
         ''Verify acceptance criteria still satisfied'']
      else if rel_type = YStr ''depends_on'' then
        [''Check dependency compatibility'', ''Update dependent entity if needed'']
      else if rel_type = YStr ''validates'' then
        [''Re-validate contract conditions'', ''Update contract if necessary'']
      else [])"

text \<open>The relationships with \<open>x\<close> at either end.\<close>

definition touching :: "jdict list \<Rightarrow> yval \<Rightarrow> jdict list" where
  "touching rels x = filter (\<lambda>r. dget r ''source'' = x \<or> dget r ''target'' = x) rels"

definition other_end :: "jdict \<Rightarrow> yval \<Rightarrow> yval" where
  "other_end rel x = (if dget rel ''source'' = x then dget rel ''target'' else dget rel ''source'')"

text \<open>The loop of \<open>_analyze_direct_impacts\<close> over the direct relationships.\<close>

fun direct_loop :: "analyzer \<Rightarrow> string \<Rightarrow> string \<Rightarrow> jdict list \<Rightarrow> pyerr + impact_item list" where
  "direct_loop a eid ctype [] = Inr []"
| "direct_loop a eid ctype (rel # rels) =
     (let affected_entity_id = other_end rel (YStr eid) in
      case index_get (entity_index a) affected_entity_id of
        Inl e \<Rightarrow> Inl e
      | Inr affected_entity \<Rightarrow>
          if found affected_entity then
            (let ent = the affected_entity;
                 impact_item = \<lparr>entity_id = affected_entity_id,
                     entity_type = dget_or ent ''type'' (YStr ''unknown''),
                     impact_type = determine_impact_type rel ctype,
                     severity = calculate_impact_severity rel ent ctype,
                     path = [YStr eid, affected_entity_id],
                     recommendations = generate_impact_recommendations rel ent ctype\<rparr>
             in bindE (direct_loop a eid ctype rels) (\<lambda>rest. Inr (impact_item # rest)))
          else direct_loop a eid ctype rels)"

definition analyze_direct_impacts :: "analyzer \<Rightarrow> string \<Rightarrow> string \<Rightarrow> pyerr + impact_item list" where
  "analyze_direct_impacts a eid ctype =
     direct_loop a eid ctype (touching (relationships a) (YStr eid))"

text \<open>
  \<open>severity_levels\<close> in insertion order; \<open>_calculate_indirect_severity\<close> looks the
  direct level up (1 for an unknown name), takes one off down to 1, and returns the
  first name at that level.
\<close>

definition severity_levels :: "(string \<times> nat) list" where
  "severity_levels = [(''critical'', 4), (''high'', 3), (''medium'', 2), (''low'', 1)]"

definition calculate_indirect_severity :: "string \<Rightarrow> jdict \<Rightarrow> string" where
  "calculate_indirect_severity direct_severity relationship =
     (let direct_level = (case map_of severity_levels direct_severity of None \<Rightarrow> 1 | Some l \<Rightarrow> l);
          indirect_level = max 1 (direct_level - 1)
      in case find (\<lambda>(s, level). level = indirect_level) severity_levels of
           Some (s, level) \<Rightarrow> s
         | None \<Rightarrow> ''low'')"

text \<open>
  \<open>_analyze_indirect_impacts\<close>: for each direct impact, the loop over its second-level
  relationships (those that do not touch the source entity), appending to
  \<open>indirect_impacts\<close>.
\<close>

definition second_level_rels :: "jdict list \<Rightarrow> string \<Rightarrow> yval \<Rightarrow> jdict list" where
  "second_level_rels rels eid x =
     filter (\<lambda>r. (dget r ''source'' = x \<or> dget r ''target'' = x) \<and>
                 dget r ''source'' \<noteq> YStr eid \<and> dget r ''target'' \<noteq> YStr eid) rels"

fun indirect_inner ::
  "analyzer \<Rightarrow> string \<Rightarrow> impact_item \<Rightarrow> jdict list \<Rightarrow> impact_item list \<Rightarrow> pyerr + impact_item list"
where
  "indirect_inner a eid direct_impact [] indirect_impacts = Inr indirect_impacts"
| "indirect_inner a eid direct_impact (rel # rels) indirect_impacts =
     (let affected_entity_id = other_end rel (entity_id direct_impact) in
      if affected_entity_id \<noteq> YStr eid \<and>
         \<not> list_ex (\<lambda>impact. entity_id impact = affected_entity_id) indirect_impacts
      then
        (case index_get (entity_index a) affected_entity_id of
           Inl e \<Rightarrow> Inl e
         | Inr affected_entity \<Rightarrow>
             if found affected_entity then
               indirect_inner a eid direct_impact rels
                 (indirect_impacts @
                  [\<lparr>entity_id = affected_entity_id,
                    entity_type = dget_or (the affected_entity) ''type'' (YStr ''unknown''),
                    impact_type = ''indirect_'' @ determine_impact_type rel ''modification'',
                    severity = calculate_indirect_severity (severity direct_impact) rel,
                    path = [YStr eid, entity_id direct_impact, affected_entity_id],
                    recommendations = [''Review for potential side effects'']\<rparr>])
             else indirect_inner a eid direct_impact rels indirect_impacts)
      else indirect_inner a eid direct_impact rels indirect_impacts)"

fun indirect_outer ::
  "analyzer \<Rightarrow> string \<Rightarrow> impact_item list \<Rightarrow> impact_item list \<Rightarrow> pyerr + impact_item list"
where
  "indirect_outer a eid [] indirect_impacts = Inr indirect_impacts"
| "indirect_outer a eid (direct_impact # rest) indirect_impacts =
     (case indirect_inner a eid direct_impact
             (second_level_rels (relationships a) eid (entity_id direct_impact)) indirect_impacts of
        Inl e \<Rightarrow> Inl e
      | Inr indirect_impacts' \<Rightarrow> indirect_outer a eid rest indirect_impacts')"

definition analyze_indirect_impacts ::
  "analyzer \<Rightarrow> string \<Rightarrow> impact_item list \<Rightarrow> pyerr + impact_item list" where
  "analyze_indirect_impacts a eid direct_impacts = indirect_outer a eid direct_impacts []"

definition calculate_cascade_severity :: "nat \<Rightarrow> string" where
  "calculate_cascade_severity path_length =
     (if path_length \<le> 3 then ''medium'' else if path_length \<le> 4 then ''low'' else ''low'')"

text \<open>
  \<open>_analyze_cascade_impacts\<close>. The state of the breadth-first search is the set
  \<open>visited\<close>, the list \<open>cascade_impacts\<close> and the queue of (entity id, path) pairs.
  \<open>cascade_step\<close> is the inner \<open>for rel in next_level_rels\<close> loop for one dequeued
  entity. The description of a cascade item joins \<open>current_path[1:]\<close> as strings, which
  raises TypeError when an id on the path is not a string.
\<close>

type_synonym cascade_state = "yval set \<times> impact_item list \<times> (yval \<times> yval list) list"

definition cascade_item :: "analyzer \<Rightarrow> yval list \<Rightarrow> yval \<Rightarrow> impact_item" where
  "cascade_item a current_path next_entity_id =
     \<lparr>entity_id = next_entity_id,
      entity_type = dget_or (the (entity_index a next_entity_id)) ''type'' (YStr ''unknown''),
      impact_type = ''cascade'',
      severity = calculate_cascade_severity (length current_path),
      path = current_path @ [next_entity_id],
      recommendations = [''Monitor for unexpected effects'']\<rparr>"

fun cascade_step ::
  "analyzer \<Rightarrow> yval \<Rightarrow> yval list \<Rightarrow> jdict list \<Rightarrow> cascade_state \<Rightarrow> pyerr + cascade_state"
where
  "cascade_step a current_entity_id current_path [] st = Inr st"
| "cascade_step a current_entity_id current_path (rel # rels) (visited, cascade_impacts, queue) =
     (let next_entity_id = other_end rel current_entity_id in
      if \<not> hashable next_entity_id then Inl TypeError
      else if next_entity_id \<notin> visited then
        (let visited = insert next_entity_id visited;
             next_entity = entity_index a next_entity_id
         in if found next_entity then
              if list_all is_str (tl current_path) then
                cascade_step a current_entity_id current_path rels
                  (visited,
                   cascade_impacts @ [cascade_item a current_path next_entity_id],
                   queue @ [(next_entity_id, current_path @ [next_entity_id])])
              else Inl TypeError
            else cascade_step a current_entity_id current_path rels
                   (visited, cascade_impacts, queue))
      else cascade_step a current_entity_id current_path rels (visited, cascade_impacts, queue))"

text \<open>The ids that stand at an end of some relationship: all the search can ever visit.\<close>

definition endpoints :: "jdict list \<Rightarrow> yval set" where
  "endpoints rels = set (map (\<lambda>r. dget r ''source'') rels) \<union> set (map (\<lambda>r. dget r ''target'') rels)"

lemma other_end_endpoints: "rel \<in> set rels \<Longrightarrow> other_end rel x \<in> endpoints rels"
  by (auto simp: other_end_def endpoints_def)

lemma cascade_step_Cons_cases:
  assumes "cascade_step a c p (r # rs) (v, ci, q) = Inr st'"
  shows "(other_end r c \<in> v \<and> cascade_step a c p rs (v, ci, q) = Inr st') \<or>
         (other_end r c \<notin> v \<and>
            cascade_step a c p rs (insert (other_end r c) v,
               ci @ [cascade_item a p (other_end r c)],
               q @ [(other_end r c, p @ [other_end r c])]) = Inr st') \<or>
         (other_end r c \<notin> v \<and>
            cascade_step a c p rs (insert (other_end r c) v, ci, q) = Inr st')"
  using assms by (simp add: Let_def split: if_splits)

lemma card_endpoints_insert:
  assumes "n \<in> endpoints rels" and "n \<notin> v"
  shows "Suc (card (endpoints rels - insert n v)) = card (endpoints rels - v)"
proof -
  have fin: "finite (endpoints rels - v)"
    by (simp add: endpoints_def)
  have eq: "endpoints rels - insert n v = (endpoints rels - v) - {n}" by blast
  have mem: "n \<in> endpoints rels - v" using assms by simp
  show ?thesis unfolding eq using fin mem by (rule card_Suc_Diff1)
qed

lemma cascade_step_measure:
  "cascade_step a c p rs (v, ci, q) = Inr (v', ci', q') \<Longrightarrow> set rs \<subseteq> set rels \<Longrightarrow>
   length q' + card (endpoints rels - v') \<le> length q + card (endpoints rels - v)"
proof (induction rs arbitrary: v ci q)
  case Nil
  then show ?case by simp
next
  case (Cons r rs)
  let ?n = "other_end r c"
  have sub: "set rs \<subseteq> set rels" using Cons.prems(2) by simp
  have mem: "?n \<in> endpoints rels"
    using Cons.prems(2) by (simp add: other_end_endpoints)
  from cascade_step_Cons_cases[OF Cons.prems(1)]
  consider (seen) "?n \<in> v" "cascade_step a c p rs (v, ci, q) = Inr (v', ci', q')"
    | (push) "?n \<notin> v" "cascade_step a c p rs (insert ?n v,
               ci @ [cascade_item a p ?n], q @ [(?n, p @ [?n])]) = Inr (v', ci', q')"
    | (skip) "?n \<notin> v" "cascade_step a c p rs (insert ?n v, ci, q) = Inr (v', ci', q')"
    by blast
  then show ?case
  proof cases
    case seen
    from Cons.IH[OF seen(2) sub] show ?thesis .
  next
    case push
    from Cons.IH[OF push(2) sub] card_endpoints_insert[OF mem push(1)]
    show ?thesis by simp
  next
    case skip
    from Cons.IH[OF skip(2) sub] card_endpoints_insert[OF mem skip(1)]
    show ?thesis by simp
  qed
qed

function cascade_loop ::
  "analyzer \<Rightarrow> (yval \<times> yval list) list \<Rightarrow> yval set \<Rightarrow> impact_item list \<Rightarrow> pyerr + impact_item list"
where
  "cascade_loop a [] visited cascade_impacts = Inr cascade_impacts"
| "cascade_loop a ((current_entity_id, current_path) # queue) visited cascade_impacts =
     (if length cascade_impacts < 20 then
        if length current_path \<ge> 5 then cascade_loop a queue visited cascade_impacts
        else
          (case cascade_step a current_entity_id current_path
                  (touching (relationships a) current_entity_id)
                  (visited, cascade_impacts, queue) of
             Inl e \<Rightarrow> Inl e
           | Inr (visited', cascade_impacts', queue') \<Rightarrow>
               cascade_loop a queue' visited' cascade_impacts')
      else Inr cascade_impacts)"
  by pat_completeness auto
termination
proof (relation "measure (\<lambda>(a, queue, visited, ci).
          length queue + card (endpoints (relationships a) - visited))")
  show "wf (measure (\<lambda>(a, queue, visited, ci).
          length queue + card (endpoints (relationships a) - visited)))"
    by simp
next
  fix a :: analyzer and current_entity_id current_path queue visited
    and cascade_impacts :: "impact_item list"
  show "((a, queue, visited, cascade_impacts),
         (a, (current_entity_id, current_path) # queue, visited, cascade_impacts))
        \<in> measure (\<lambda>(a, queue, visited, ci).
             length queue + card (endpoints (relationships a) - visited))"
    by simp
next
  fix a :: analyzer and current_entity_id current_path queue visited
    and cascade_impacts :: "impact_item list" and x2 x y xa ya
  assume "cascade_step a current_entity_id current_path
            (touching (relationships a) current_entity_id)
            (visited, cascade_impacts, queue) = Inr x2"
    and "(x, y) = x2" and "(xa, ya) = y"
  then have "cascade_step a current_entity_id current_path
            (touching (relationships a) current_entity_id)
            (visited, cascade_impacts, queue) = Inr (x, xa, ya)"
    by simp
  from cascade_step_measure[OF this, of "relationships a"]
  show "((a, ya, x, xa), (a, (current_entity_id, current_path) # queue, visited, cascade_impacts))
        \<in> measure (\<lambda>(a, queue, visited, ci).
             length queue + card (endpoints (relationships a) - visited))"
    by (simp add: touching_def)
qed

definition analyze_cascade_impacts ::
  "analyzer \<Rightarrow> string \<Rightarrow> impact_item list \<Rightarrow> pyerr + impact_item list" where
  "analyze_cascade_impacts a eid existing_impacts =
     (if list_all (\<lambda>impact. hashable (entity_id impact)) existing_impacts then
        cascade_loop a (map (\<lambda>impact. (entity_id impact, path impact)) existing_impacts)
          (insert (YStr eid) (set (map entity_id existing_impacts))) []
      else Inl TypeError)"

text \<open>
  The report. \<open>risk_assessment\<close> is a dict in the source: empty at first, the four risk
  fields after phase 4, or \<open>{"error": str(e)}\<close> when an exception was caught; the model
  keeps the exception whose text that is.
\<close>

datatype risk =
    RiskUnset
  | RiskError pyerr
  | Risk (overall_risk: string) (risk_score: nat) (risk_factors: "string list")
      (mitigation_required: bool)

record impact_report =
  source_entity :: string
  change_type :: string
  analysis_timestamp :: string
  direct_impacts :: "impact_item list"
  indirect_impacts :: "impact_item list"
  cascade_impacts :: "impact_item list"
  risk_assessment :: risk
  mitigation_strategies :: "string list"
  affected_layers :: "yval set"
  testing_recommendations :: "string list"

fun layers_loop :: "analyzer \<Rightarrow> impact_item list \<Rightarrow> yval set \<Rightarrow> pyerr + yval set" where
  "layers_loop a [] layers = Inr layers"
| "layers_loop a (impact # rest) layers =
     (case index_get (entity_index a) (entity_id impact) of
        Inl e \<Rightarrow> Inl e
      | Inr entity \<Rightarrow>
          if found entity then
            (let layer = dget_or (the entity) ''layer'' (YStr ''unknown'') in
             if layer \<noteq> YStr ''unknown'' then
               if hashable layer then layers_loop a rest (insert layer layers) else Inl TypeError
             else layers_loop a rest layers)
          else layers_loop a rest layers)"

definition analyze_affected_layers :: "analyzer \<Rightarrow> impact_report \<Rightarrow> pyerr + yval set" where
  "analyze_affected_layers a report =
     layers_loop a (direct_impacts report @ indirect_impacts report @ cascade_impacts report) {}"

definition perform_risk_assessment :: "analyzer \<Rightarrow> jdict \<Rightarrow> impact_report \<Rightarrow> pyerr + risk" where
  "perform_risk_assessment a src report =
     (let etype = dget_or src ''type'' (YStr ''unknown'');
          (factors, score) =
            (if etype \<in> set [YStr ''functional_requirement'', YStr ''contract'']
             then ([''Critical entity type''], 3::nat) else ([], 0));
          total_impacts = length (direct_impacts report) + length (indirect_impacts report)
                          + length (cascade_impacts report);
          (factors, score) =
            (if total_impacts > 10 then (factors @ [''High impact count''], score + 2)
             else if total_impacts > 5 then (factors @ [''Medium impact count''], score + 1)
             else (factors, score));
          critical_impacts =
            length (filter (\<lambda>impact. severity impact = ''critical'')
                      (direct_impacts report @ indirect_impacts report));
          (factors, score) =
            (if critical_impacts > 0
             then (factors @ [''Critical severity impacts''], score + critical_impacts)
             else (factors, score))
      in bindE (analyze_affected_layers a report) (\<lambda>layers.
           let (factors, score) =
                 (if card layers > 2 then (factors @ [''Multiple layer impact''], score + 1)
                  else (factors, score));
               overall =
                 (if score \<ge> 8 then ''critical''
                  else if score \<ge> 5 then ''high''
                  else if score \<ge> 3 then ''medium''
                  else ''low'')
           in Inr (Risk overall score factors (overall \<in> set [''critical'', ''high'']))))"

text \<open>\<open>report.risk_assessment.get('overall_risk', 'low')\<close>.\<close>

fun risk_level_or_low :: "risk \<Rightarrow> string" where
  "risk_level_or_low (Risk overall _ _ _) = overall"
| "risk_level_or_low _ = ''low''"

definition generate_mitigation_strategies :: "impact_report \<Rightarrow> string list" where
  "generate_mitigation_strategies report =
     (let risk_level = risk_level_or_low (risk_assessment report);
          impact_types = set (map impact_type (direct_impacts report @ indirect_impacts report))
      in (if risk_level = ''critical'' then
            [''Implement phased rollout with rollback plan'',
             ''Create comprehensive test suite covering all impacts'',
             ''Set up monitoring for all affected entities'',
             ''Prepare hotfix deployment process'']
          else if risk_level = ''high'' then
            [''Perform staged deployment'',
             ''Enhanced testing of affected components'',
             ''Monitor key metrics during rollout'']
          else [])
         @ (if ''implementation_change'' \<in> impact_types
            then [''Update related contracts and BDD scenarios''] else [])
         @ (if ''dependency_impact'' \<in> impact_types
            then [''Verify dependency compatibility''] else [])
         @ (if ''contract_validation'' \<in> impact_types
            then [''Re-validate all affected contracts''] else [])
         @ (if card (affected_layers report) > 1
            then [''Coordinate changes across affected layers''] else []))"

definition generate_testing_recommendations :: "impact_report \<Rightarrow> string list" where
  "generate_testing_recommendations report =
     (let total_impacts = length (direct_impacts report) + length (indirect_impacts report);
          layers = affected_layers report;
          contract_impacts =
            filter (\<lambda>impact. impact_type impact = ''contract_validation'')
              (direct_impacts report @ indirect_impacts report)
      in [''Unit tests for modified entity'', ''Integration tests for direct impacts'']
         @ (if total_impacts > 5 then
              [''Regression test suite execution'', ''End-to-end testing of affected workflows'']
            else [])
         @ (if YStr ''foundation'' \<in> layers
            then [''Infrastructure and configuration testing''] else [])
         @ (if YStr ''application'' \<in> layers
            then [''Business logic validation testing''] else [])
         @ (if YStr ''deployment'' \<in> layers
            then [''Deployment and operational testing''] else [])
         @ (if contract_impacts \<noteq> [] then [''Contract compliance verification''] else []))"

text \<open>
  \<open>analyze_change_impact\<close>. The report is filled phase by phase inside one \<open>try\<close>; an
  exception in any phase is caught, stored in \<open>risk_assessment\<close>, and the report is
  returned as it stood. \<open>now\<close> is the clock reading for the timestamp.
\<close>

definition failed_with :: "impact_report \<Rightarrow> pyerr \<Rightarrow> impact_report" where
  "failed_with report e = report\<lparr>risk_assessment := RiskError e\<rparr>"

definition analyze_change_impact :: "analyzer \<Rightarrow> string \<Rightarrow> string \<Rightarrow> string \<Rightarrow> impact_report" where
  "analyze_change_impact a now eid ctype =
     (let report = \<lparr>source_entity = eid, change_type = ctype, analysis_timestamp = now,
                     direct_impacts = [], indirect_impacts = [], cascade_impacts = [],
                     risk_assessment = RiskUnset, mitigation_strategies = [],
                     affected_layers = {}, testing_recommendations = []\<rparr>;
          src = entity_index a (YStr eid)
      in if \<not> found src then failed_with report (ValueError (''Entity '' @ eid @ '' not found''))
         else case analyze_direct_impacts a eid ctype of
           Inl e \<Rightarrow> failed_with report e
         | Inr direct \<Rightarrow>
        (let report = report\<lparr>direct_impacts := direct\<rparr> in
         case analyze_indirect_impacts a eid direct of
           Inl e \<Rightarrow> failed_with report e
         | Inr indirect \<Rightarrow>
        (let report = report\<lparr>indirect_impacts := indirect\<rparr> in
         case analyze_cascade_impacts a eid (direct @ indirect) of
           Inl e \<Rightarrow> failed_with report e
         | Inr cascade \<Rightarrow>
        (let report = report\<lparr>cascade_impacts := cascade\<rparr> in
         case perform_risk_assessment a (the src) report of
           Inl e \<Rightarrow> failed_with report e
         | Inr r \<Rightarrow>
        (let report = report\<lparr>risk_assessment := r\<rparr>;
             report = report\<lparr>mitigation_strategies := generate_mitigation_strategies report\<rparr>
         in case analyze_affected_layers a report of
           Inl e \<Rightarrow> failed_with report e
         | Inr layers \<Rightarrow>
        (let report = report\<lparr>affected_layers := layers\<rparr>
         in report\<lparr>testing_recommendations := generate_testing_recommendations report\<rparr>))))))"

subsection \<open>The severity rule in the words of the specification\<close>

text \<open>
  The weights and the buckets as the specification words them: a relationship-type
  weight, a target-entity-type weight and a change-type weight, and the map from a number
  to a level (below 2 low, 2 to 3 medium, 4 to 5 high, 6 and more critical).
\<close>

definition spec_rel_weight :: "yval \<Rightarrow> nat" where
  "spec_rel_weight t =
     (if t = YStr ''implements'' \<or> t = YStr ''validates'' then 2
      else if t = YStr ''depends_on'' then 1 else 0)"

definition spec_entity_weight :: "yval \<Rightarrow> nat" where
  "spec_entity_weight t =
     (if t = YStr ''functional_requirement'' \<or> t = YStr ''contract'' then 2
      else if t = YStr ''unit_of_work'' then 1 else 0)"

definition spec_change_weight :: "string \<Rightarrow> nat" where
  "spec_change_weight c =
     (if c = ''removal'' then 2 else if c = ''major_modification'' then 1 else 0)"

definition spec_bucket :: "nat \<Rightarrow> string" where
  "spec_bucket s =
     (if s < 2 then ''low'' else if s \<le> 3 then ''medium''
      else if s \<le> 5 then ''high'' else ''critical'')"

definition spec_sum :: "jdict \<Rightarrow> jdict \<Rightarrow> string \<Rightarrow> nat" where
  "spec_sum rel ent ctype =
     spec_rel_weight (dget_or rel ''type'' (YStr ''unknown''))
     + spec_entity_weight (dget_or ent ''type'' (YStr ''unknown''))
     + spec_change_weight ctype"

subsection \<open>Example graphs\<close>

definition mk_entity :: "string \<Rightarrow> string \<Rightarrow> jdict" where
  "mk_entity i t = [(''id'', YStr i), (''type'', YStr t)]"

definition mk_rel :: "string \<Rightarrow> string \<Rightarrow> string \<Rightarrow> jdict" where
  "mk_rel s t ty = [(''source'', YStr s), (''target'', YStr t), (''type'', YStr ty)]"

text \<open>One requirement and the unit of work that implements it.\<close>

definition pair_graph :: analyzer where
  "pair_graph =
     \<lparr>entities = [mk_entity ''FR-001'' ''functional_requirement'',
                   mk_entity ''UoW-001'' ''unit_of_work''],
      relationships = [mk_rel ''UoW-001'' ''FR-001'' ''implements''],
      entity_index = [YStr ''FR-001'' \<mapsto> mk_entity ''FR-001'' ''functional_requirement'',
                      YStr ''UoW-001'' \<mapsto> mk_entity ''UoW-001'' ''unit_of_work'']\<rparr>"

definition pair_item :: impact_item where
  "pair_item = \<lparr>entity_id = YStr ''UoW-001'', entity_type = YStr ''unit_of_work'',
       impact_type = ''implementation_change'', severity = ''high'',
       path = [YStr ''FR-001'', YStr ''UoW-001''],
       recommendations = [''Update implementation to match changes'',
         ''Verify acceptance criteria still satisfied'']\<rparr>"

text \<open>
  A chain \<open>A - B - C\<close> and twenty-one entities \<open>D01 .. D21\<close> that each depend on \<open>C\<close>:
  seen from \<open>A\<close>, \<open>B\<close> is a direct impact, \<open>C\<close> an indirect one, and the \<open>D\<close>s are
  three edges away.
\<close>

definition fan_ids :: "string list" where
  "fan_ids = [''D01'', ''D02'', ''D03'', ''D04'', ''D05'', ''D06'', ''D07'', ''D08'', ''D09'', ''D10'', ''D11'', ''D12'', ''D13'', ''D14'', ''D15'', ''D16'', ''D17'', ''D18'', ''D19'', ''D20'', ''D21'']"

definition fan_entities :: "jdict list" where
  "fan_entities = map (\<lambda>i. mk_entity i ''unit_of_work'') ([''A'', ''B'', ''C''] @ fan_ids)"

definition fan_relationships :: "jdict list" where
  "fan_relationships =
     mk_rel ''B'' ''A'' ''depends_on'' # mk_rel ''C'' ''B'' ''depends_on'' #
     map (\<lambda>i. mk_rel i ''C'' ''depends_on'') fan_ids"

section \<open>Python operations on dynamic values\<close>

text \<open>
  \<open>key in v\<close>, \<open>v[key]\<close>, \<open>v.items()\<close>, \<open>v.get(key, default)\<close>, \<open>for x in v\<close> and the
  truth value of \<open>v\<close>, for a string key and any value \<open>v\<close>. Each raises where Python
  raises: \<open>in\<close> and iteration need a container, a subscript with a string needs a dict,
  \<open>items\<close> and \<open>get\<close> are methods of dicts only.
\<close>

fun is_substr :: "string \<Rightarrow> string \<Rightarrow> bool" where
  "is_substr p [] = (p = [])"
| "is_substr p (c # cs) = (take (length p) (c # cs) = p \<or> is_substr p cs)"

fun py_contains :: "string \<Rightarrow> yval \<Rightarrow> pyerr + bool" where
  "py_contains k (YDict d) = Inr (k \<in> set (map fst d))"
| "py_contains k (YList xs) = Inr (YStr k \<in> set xs)"
| "py_contains k (YStr s) = Inr (is_substr k s)"
| "py_contains k _ = Inl TypeError"

fun py_getitem :: "yval \<Rightarrow> string \<Rightarrow> pyerr + yval" where
  "py_getitem (YDict d) k = ditem d k"
| "py_getitem _ k = Inl TypeError"

fun py_items :: "yval \<Rightarrow> pyerr + (string \<times> yval) list" where
  "py_items (YDict d) = Inr d"
| "py_items _ = Inl AttributeError"

fun py_get :: "yval \<Rightarrow> string \<Rightarrow> yval \<Rightarrow> pyerr + yval" where
  "py_get (YDict d) k dflt = Inr (dget_or d k dflt)"
| "py_get _ k dflt = Inl AttributeError"

fun py_iter :: "yval \<Rightarrow> pyerr + yval list" where
  "py_iter (YList xs) = Inr xs"
| "py_iter (YStr s) = Inr (map (\<lambda>c. YStr [c]) s)"
| "py_iter (YDict d) = Inr (map (\<lambda>(k, v). YStr k) d)"
| "py_iter _ = Inl TypeError"

fun py_truthy :: "yval \<Rightarrow> bool" where
  "py_truthy YNull = False"
| "py_truthy (YBool b) = b"
| "py_truthy (YInt n) = (n \<noteq> 0)"
| "py_truthy (YStr s) = (s \<noteq> [])"
| "py_truthy (YList xs) = (xs \<noteq> [])"
| "py_truthy (YDict d) = (d \<noteq> [])"

section \<open>Indexer (ssot-indexer.py)\<close>

text \<open>
  Every entity and relationship is stamped with \<open>datetime.now().isoformat()\<close>. The
  clock is an input of the model: \<open>clk n\<close> is what the \<open>n\<close>-th reading of a run returns,
  and the functions below pass on the number of readings made so far. A step of the
  indexer takes that number and returns the values it emits with the new number, or the
  exception it raises.
\<close>

type_synonym clock = "nat \<Rightarrow> string"

type_synonym emit = "pyerr + (yval list \<times> nat)"

text \<open>Two steps in sequence, and a \<open>for\<close> loop running a step for each element.\<close>

definition seq2 :: "(nat \<Rightarrow> emit) \<Rightarrow> (nat \<Rightarrow> emit) \<Rightarrow> nat \<Rightarrow> emit" where
  "seq2 f g t =
     (case f t of
        Inl e \<Rightarrow> Inl e
      | Inr (ys, t') \<Rightarrow> (case g t' of Inl e \<Rightarrow> Inl e | Inr (zs, t'') \<Rightarrow> Inr (ys @ zs, t'')))"

fun for_concat :: "('a \<Rightarrow> nat \<Rightarrow> emit) \<Rightarrow> 'a list \<Rightarrow> nat \<Rightarrow> emit" where
  "for_concat body [] t = Inr ([], t)"
| "for_concat body (x # xs) t = seq2 (body x) (for_concat body xs) t"

text \<open>
  \<open>_generate_hash\<close>: the first 16 hex digits of the SHA-256 of the JSON text of the
  data with sorted keys. \<open>dg\<close> stands for the library part (\<open>json.dumps\<close>, \<open>hashlib\<close>):
  the full hex digest of a value.
\<close>

definition generate_hash :: "(yval \<Rightarrow> string) \<Rightarrow> yval \<Rightarrow> string" where
  "generate_hash dg data = take 16 (dg data)"

text \<open>The entries \<open>"k": spec.get('k', default)\<close> of an entity, and its \<open>metadata\<close> entry.\<close>

definition fields_from :: "jdict \<Rightarrow> (string \<times> yval) list \<Rightarrow> jdict" where
  "fields_from d ks = map (\<lambda>(k, dflt). (k, dget_or d k dflt)) ks"

definition metadata_entry :: "(yval \<Rightarrow> string) \<Rightarrow> clock \<Rightarrow> nat \<Rightarrow> string \<Rightarrow> yval \<Rightarrow> string \<times> yval" where
  "metadata_entry dg clk t src spec =
     (''metadata'', YDict [(''source'', YStr src), (''last_updated'', YStr (clk t)),
                          (''hash'', YStr (generate_hash dg spec))])"

definition fr_entity :: "(yval \<Rightarrow> string) \<Rightarrow> clock \<Rightarrow> string \<times> yval \<Rightarrow> nat \<Rightarrow> emit" where
  "fr_entity dg clk = (\<lambda>(fr_id, fr_spec) t.
     case fr_spec of
       YDict d \<Rightarrow>
         Inr ([YDict ([(''id'', YStr fr_id), (''type'', YStr ''functional_requirement'')]
                @ fields_from d [(''title'', YStr ''''), (''description'', YStr ''''),
                     (''category'', YStr ''''), (''priority'', YStr ''''),
                     (''acceptance_criteria'', YList [])]
                @ [metadata_entry dg clk t ''framework_requirements'' fr_spec])], Suc t)
     | _ \<Rightarrow> Inl AttributeError)"

definition nfr_entity :: "(yval \<Rightarrow> string) \<Rightarrow> clock \<Rightarrow> string \<times> yval \<Rightarrow> nat \<Rightarrow> emit" where
  "nfr_entity dg clk = (\<lambda>(nfr_id, nfr_spec) t.
     case nfr_spec of
       YDict d \<Rightarrow>
         Inr ([YDict ([(''id'', YStr nfr_id), (''type'', YStr ''non_functional_requirement'')]
                @ fields_from d [(''title'', YStr ''''), (''description'', YStr ''''),
                     (''category'', YStr ''''), (''priority'', YStr ''''),
                     (''requirements'', YList []), (''measurement'', YStr '''')]
                @ [metadata_entry dg clk t ''framework_requirements'' nfr_spec])], Suc t)
     | _ \<Rightarrow> Inl AttributeError)"

definition uow_entity :: "(yval \<Rightarrow> string) \<Rightarrow> clock \<Rightarrow> string \<times> yval \<Rightarrow> nat \<Rightarrow> emit" where
  "uow_entity dg clk = (\<lambda>(uow_id, uow_spec) t.
     case uow_spec of
       YDict d \<Rightarrow>
         Inr ([YDict ([(''id'', YStr uow_id), (''type'', YStr ''unit_of_work'')]
                @ fields_from d [(''name'', YStr ''''), (''goal'', YStr ''''),
                     (''layer'', YStr ''''), (''priority'', YStr ''''), (''effort'', YStr ''''),
                     (''implements'', YList []), (''dependencies'', YList []),
                     (''acceptance_criteria'', YList [])]
                @ [metadata_entry dg clk t ''framework_requirements'' uow_spec])], Suc t)
     | _ \<Rightarrow> Inl AttributeError)"

definition contract_entity :: "(yval \<Rightarrow> string) \<Rightarrow> clock \<Rightarrow> string \<times> yval \<Rightarrow> nat \<Rightarrow> emit" where
  "contract_entity dg clk = (\<lambda>(contract_id, contract_spec) t.
     case contract_spec of
       YDict d \<Rightarrow>
         Inr ([YDict ([(''id'', dget_or d ''contract_id'' (YStr contract_id)),
                       (''type'', YStr ''contract'')]
                @ fields_from d [(''title'', YStr ''''), (''applies_to'', YDict []),
                     (''preconditions'', YList []), (''postconditions'', YList []),
                     (''invariants'', YList []), (''performance'', YDict []),
                     (''security'', YDict [])]
                @ [metadata_entry dg clk t (''contracts/'' @ contract_id) contract_spec])], Suc t)
     | _ \<Rightarrow> Inl AttributeError)"

definition extension_entity ::
  "(yval \<Rightarrow> string) \<Rightarrow> clock \<Rightarrow> string \<Rightarrow> string \<times> yval \<Rightarrow> nat \<Rightarrow> emit" where
  "extension_entity dg clk category = (\<lambda>(ext_name, ext_spec) t.
     case ext_spec of
       YDict d \<Rightarrow>
         Inr ([YDict ([(''id'', YStr (category @ ''_'' @ ext_name)), (''type'', YStr ''extension''),
                       (''name'', dget_or d ''name'' (YStr ext_name)),
                       (''category'', YStr category)]
                @ fields_from d [(''description'', YStr ''''),
                     (''functional_requirements'', YDict []),
                     (''non_functional_requirements'', YDict []),
                     (''units_of_work'', YDict [])]
                @ [metadata_entry dg clk t (''extensions/'' @ category @ ''/'' @ ext_name)
                     ext_spec])], Suc t)
     | _ \<Rightarrow> Inl AttributeError)"

text \<open>
  \<open>if key in data: for k, v in data[key].items(): ...\<close>, the shape of every section of
  \<open>extract_entities\<close> and \<open>extract_relationships\<close>.
\<close>

definition section_loop :: "yval \<Rightarrow> string \<Rightarrow> (string \<times> yval \<Rightarrow> nat \<Rightarrow> emit) \<Rightarrow> nat \<Rightarrow> emit" where
  "section_loop data key body t =
     bindE (py_contains key data) (\<lambda>present.
       if present then
         bindE (py_getitem data key) (\<lambda>v. bindE (py_items v) (\<lambda>kvs. for_concat body kvs t))
       else Inr ([], t))"

definition extract_entities :: "(yval \<Rightarrow> string) \<Rightarrow> clock \<Rightarrow> jdict \<Rightarrow> nat \<Rightarrow> emit" where
  "extract_entities dg clk ssot_data =
     seq2 (\<lambda>t. case map_of ssot_data ''framework_requirements'' of
                 None \<Rightarrow> Inr ([], t)
               | Some fr_data \<Rightarrow>
                   seq2 (section_loop fr_data ''functional_requirements'' (fr_entity dg clk))
                     (seq2 (section_loop fr_data ''non_functional_requirements'' (nfr_entity dg clk))
                           (section_loop fr_data ''units_of_work'' (uow_entity dg clk))) t)
       (seq2 (section_loop (YDict ssot_data) ''contracts'' (contract_entity dg clk))
             (section_loop (YDict ssot_data) ''extensions''
                (\<lambda>(category, extensions) t.
                   bindE (py_items extensions)
                     (\<lambda>kvs. for_concat (extension_entity dg clk category) kvs t))))"

text \<open>One relationship dict, stamped with the clock reading \<open>clk t\<close>.\<close>

definition relationship :: "clock \<Rightarrow> nat \<Rightarrow> yval \<Rightarrow> yval \<Rightarrow> string \<Rightarrow> string \<Rightarrow> yval" where
  "relationship clk t src tgt ty file =
     YDict [(''source'', src), (''target'', tgt), (''type'', YStr ty),
            (''metadata'', YDict [(''created'', YStr (clk t)), (''source_file'', YStr file)])]"

definition uow_relationships :: "clock \<Rightarrow> string \<times> yval \<Rightarrow> nat \<Rightarrow> emit" where
  "uow_relationships clk = (\<lambda>(uow_id, uow_spec) t.
     bindE (py_get uow_spec ''implements'' (YList [])) (\<lambda>implements.
     bindE (py_iter implements) (\<lambda>req_ids.
       seq2 (for_concat
               (\<lambda>req_id t. Inr ([relationship clk t (YStr uow_id) req_id ''implements''
                                    ''framework_requirements''], Suc t)) req_ids)
            (\<lambda>t. bindE (py_get uow_spec ''dependencies'' (YList [])) (\<lambda>dependencies.
                  bindE (py_iter dependencies) (\<lambda>dep_ids.
                    for_concat
                      (\<lambda>dep_id t. Inr ([relationship clk t (YStr uow_id) dep_id ''depends_on''
                                           ''framework_requirements''], Suc t)) dep_ids t)))
            t)))"

definition contract_relationships :: "clock \<Rightarrow> string \<times> yval \<Rightarrow> nat \<Rightarrow> emit" where
  "contract_relationships clk = (\<lambda>(contract_id, contract_spec) t.
     bindE (py_get contract_spec ''applies_to'' (YDict [])) (\<lambda>applies_to.
     bindE (py_get applies_to ''entity_type'' YNull) (\<lambda>entity_type.
       if entity_type = YStr ''uow'' then
         bindE (py_get applies_to ''entity_name'' YNull) (\<lambda>entity_name.
           if py_truthy entity_name then
             bindE (py_get contract_spec ''contract_id'' (YStr contract_id)) (\<lambda>src.
               Inr ([relationship clk t src entity_name ''validates''
                       (''contracts/'' @ contract_id)], Suc t))
           else Inr ([], t))
       else Inr ([], t))))"

definition extract_relationships :: "clock \<Rightarrow> jdict \<Rightarrow> nat \<Rightarrow> emit" where
  "extract_relationships clk ssot_data =
     seq2 (\<lambda>t. case map_of ssot_data ''framework_requirements'' of
                 None \<Rightarrow> Inr ([], t)
               | Some fr_data \<Rightarrow> section_loop fr_data ''units_of_work'' (uow_relationships clk) t)
          (section_loop (YDict ssot_data) ''contracts'' (contract_relationships clk))"

subsection \<open>The index store\<close>

text \<open>
  The index store is the output directory: a map from file names to files. A file holds
  a JSON document, or nothing yet: \<open>open(path, 'w')\<close> creates or empties the file, and
  the document is there once \<open>json.dump\<close> has written it and the \<open>with\<close> block has
  closed the file. A file that is only partly flushed reads like an emptied one: it does
  not parse.
\<close>

datatype index_file = Truncated | Written yval

type_synonym store = "string \<rightharpoonup> index_file"









subsection \<open>Dangling references, in the words of the specification\<close>


subsection \<open>Example documents\<close>


text \<open>One functional requirement.\<close>

definition one_requirement :: jdict where
  "one_requirement =
     [(''framework_requirements'',
       YDict [(''functional_requirements'',
               YDict [(''FR-001'', YDict [(''title'', YStr ''Login'')])])])]"

subsection \<open>Index output without its timestamps\<close>

text \<open>
  \<open>untimed\<close> drops the clock readings from an entity or relationship: the entries
  \<open>last_updated\<close> and \<open>created\<close> of its \<open>metadata\<close>. \<open>stored_hash\<close> reads the content
  hash kept in an entity's \<open>metadata\<close>.
\<close>

fun strip_times :: "yval \<Rightarrow> yval" where
  "strip_times (YDict m) = YDict (filter (\<lambda>(k, v). k \<noteq> ''last_updated'' \<and> k \<noteq> ''created'') m)"
| "strip_times v = v"

fun untimed :: "yval \<Rightarrow> yval" where
  "untimed (YDict kvs) =
     YDict (map (\<lambda>(k, v). if k = ''metadata'' then (k, strip_times v) else (k, v)) kvs)"
| "untimed v = v"

fun stored_hash :: "yval \<Rightarrow> yval" where
  "stored_hash (YDict kvs) = (case dget kvs ''metadata'' of YDict m \<Rightarrow> dget m ''hash'' | _ \<Rightarrow> YNull)"
| "stored_hash v = YNull"

definition untimed_result :: "emit \<Rightarrow> pyerr + yval list" where
  "untimed_result r = map_sum id (\<lambda>(ys, t). map untimed ys) r"

definition stored_hashes :: "emit \<Rightarrow> pyerr + yval list" where
  "stored_hashes r = map_sum id (\<lambda>(ys, t). map stored_hash ys) r"



section \<open>Sync Engine (sync-engine.py)\<close>

text \<open>
  \<open>d[k] = v\<close> on a dict in insertion order: an existing key keeps its place and takes
  the new value, a new key goes to the end.
\<close>

fun dict_set :: "('k \<times> 'v) list \<Rightarrow> 'k \<Rightarrow> 'v \<Rightarrow> ('k \<times> 'v) list" where
  "dict_set [] k v = [(k, v)]"
| "dict_set ((k', v') # d) k v = (if k' = k then (k, v) # d else (k', v') # dict_set d k v)"







record changes =
  ssot_updates :: "string list"
  graphrag_updates :: "yval list"
  conflicts :: "yval list"





subsection \<open>Notions used to relate the Sync Engine to the Indexer\<close>











section \<open>Query Engine (ssot-query.py)\<close>

subsection \<open>String methods\<close>

text \<open>
  \<open>str.lower\<close>, \<open>str.split()\<close>, \<open>sep.join\<close>, \<open>str.count\<close> and \<open>in\<close>, on ASCII text:
  \<open>lower\<close> maps \<open>A\<close> to \<open>Z\<close>; whitespace is the characters 9 to 13, 28 to 32;
  \<open>count\<close> counts occurrences from the left that do not overlap.
\<close>

definition lower_char :: "char \<Rightarrow> char" where
  "lower_char c =
     (let n = (of_char c :: nat) in if 65 \<le> n \<and> n \<le> 90 then char_of (n + 32) else c)"

definition lower :: "string \<Rightarrow> string" where
  "lower s = map lower_char s"

definition is_space :: "char \<Rightarrow> bool" where
  "is_space c = (let n = (of_char c :: nat) in (9 \<le> n \<and> n \<le> 13) \<or> (28 \<le> n \<and> n \<le> 32))"

text \<open>\<open>split_acc w s\<close>: the words of \<open>s\<close>, where \<open>w\<close> is the word read so far, reversed.\<close>

fun split_acc :: "string \<Rightarrow> string \<Rightarrow> string list" where
  "split_acc w [] = (if w = [] then [] else [rev w])"
| "split_acc w (c # cs) =
     (if is_space c then (if w = [] then split_acc [] cs else rev w # split_acc [] cs)
      else split_acc (c # w) cs)"

definition py_split :: "string \<Rightarrow> string list" where
  "py_split s = split_acc [] s"

fun join :: "string \<Rightarrow> string list \<Rightarrow> string" where
  "join sep [] = []"
| "join sep [x] = x"
| "join sep (x # y # ys) = x @ sep @ join sep (y # ys)"

text \<open>
  \<open>count_from skip sub s\<close>: occurrences of the non-empty \<open>sub\<close> in \<open>s\<close>, where the
  first \<open>skip\<close> characters belong to an occurrence already counted.
\<close>

fun count_from :: "nat \<Rightarrow> string \<Rightarrow> string \<Rightarrow> nat" where
  "count_from skip sub [] = 0"
| "count_from skip sub (c # cs) =
     (if skip > 0 then count_from (skip - 1) sub cs
      else if take (length sub) (c # cs) = sub then Suc (count_from (length sub - 1) sub cs)
      else count_from 0 sub cs)"

definition str_count :: "string \<Rightarrow> string \<Rightarrow> nat" where
  "str_count s sub = (if sub = [] then length s + 1 else count_from 0 sub s)"

text \<open>
  \<open>sep.join(v)\<close> for a dynamic value: the elements must be strings; a string is joined
  character by character, a dict by its keys.
\<close>

fun py_str_list :: "yval list \<Rightarrow> pyerr + string list" where
  "py_str_list [] = Inr []"
| "py_str_list (YStr s # vs) = bindE (py_str_list vs) (\<lambda>ss. Inr (s # ss))"
| "py_str_list (_ # vs) = Inl TypeError"

definition py_join :: "string \<Rightarrow> yval \<Rightarrow> pyerr + string" where
  "py_join sep v = bindE (py_iter v) (\<lambda>vs. bindE (py_str_list vs) (\<lambda>ss. Inr (join sep ss)))"

subsection \<open>The engine and its results\<close>

text \<open>
  The engine's state after \<open>__init__\<close>: the entities and relationships of the index and
  the knowledge store. \<open>feature_files\<close> is what the coverage analysis finds in the
  features directory: nothing when the directory does not exist, else the stems of the
  \<open>*.feature\<close> files in its subdirectories.
\<close>

record query_engine = graph +
  knowledge :: jdict
  feature_files :: "string list option"

text \<open>
  The result dicts of the processors, one shape per kind of result. Relevance is a
  quotient of two counts, a float in the source and a rational here. \<open>analysis_error\<close>
  is what \<open>analyze_impact\<close> stores under \<open>"error"\<close>: that the entity was not found, or
  the exception it caught.
\<close>

datatype analysis_failure = NotFound string | Raised pyerr

record impact_analysis =
  analysis_entity_id :: string
  analysis_change_type :: string
  analysis_direct :: "(jdict \<times> jdict \<times> string) list"
  analysis_indirect :: "(jdict \<times> jdict \<times> yval \<times> string) list"
  risk_level :: string
  analysis_recommendations :: "string list"
  analysis_error :: "analysis_failure option"

record coverage_gaps =
  requirements_without_uows :: "yval list"
  uows_without_contracts :: "yval list"
  uows_without_bdd :: "yval list"
  orphaned_contracts :: "yval list"

datatype qresult =
    KeywordHit (hit_entity: jdict) (relevance: rat) (matches: "string list")
  | ImplementingUow jdict jdict bool
  | RelatedContract jdict yval
  | PatternHit string yval yval
  | ImpactHit string impact_analysis
  | CoverageHit coverage_gaps

record query_metadata =
  error :: "pyerr option"
  query_type :: string
  timestamp :: string
  results_count :: "nat option"

record query_result =
  query_text :: string
  results :: "qresult list"
  metadata :: query_metadata

subsection \<open>Keyword queries\<close>

text \<open>
  The searchable text of an entity: title, description and the joined acceptance
  criteria, joined by spaces and lowercased. The title and the description must be
  strings.
\<close>

definition searchable_text :: "jdict \<Rightarrow> pyerr + string" where
  "searchable_text entity =
     bindE (py_join '' '' (dget_or entity ''acceptance_criteria'' (YList []))) (\<lambda>criteria.
     bindE (py_str_list [dget_or entity ''title'' (YStr ''''),
                         dget_or entity ''description'' (YStr ''''), YStr criteria]) (\<lambda>parts.
       Inr (lower (join '' '' parts))))"

definition calculate_relevance :: "string \<Rightarrow> string \<Rightarrow> rat" where
  "calculate_relevance keyword text =
     (let keyword_count = str_count (lower text) (lower keyword);
          text_length = length (py_split text)
      in of_nat keyword_count / of_nat (max text_length 1))"

definition find_keyword_matches :: "string \<Rightarrow> string \<Rightarrow> string \<Rightarrow> string list" where
  "find_keyword_matches keyword title description =
     (if is_substr (lower keyword) (lower title) then [''title: '' @ title] else [])
     @ (if is_substr (lower keyword) (lower description)
        then [''description: '' @ description] else [])"

definition requirement_types :: "yval list" where
  "requirement_types = [YStr ''functional_requirement'', YStr ''non_functional_requirement'']"

fun keyword_scan :: "string \<Rightarrow> jdict list \<Rightarrow> pyerr + qresult list" where
  "keyword_scan keyword [] = Inr []"
| "keyword_scan keyword (entity # rest) =
     (if dget entity ''type'' \<in> set requirement_types then
        bindE (searchable_text entity) (\<lambda>text.
          if is_substr (lower keyword) text then
            (case (dget_or entity ''title'' (YStr ''''), dget_or entity ''description'' (YStr '''')) of
               (YStr title, YStr description) \<Rightarrow>
                 bindE (keyword_scan keyword rest) (\<lambda>more.
                   Inr (KeywordHit entity (calculate_relevance keyword text)
                          (find_keyword_matches keyword title description) # more))
             | _ \<Rightarrow> Inl TypeError)
          else keyword_scan keyword rest)
      else keyword_scan keyword rest)"

text \<open>\<open>results.sort(key=..., reverse=True)\<close>: descending, equal keys in their old order.\<close>

definition find_requirements_by_keyword :: "query_engine \<Rightarrow> string \<Rightarrow> pyerr + qresult list" where
  "find_requirements_by_keyword q keyword =
     bindE (keyword_scan keyword (entities q)) (\<lambda>found.
       Inr (sort_key (\<lambda>r. - relevance r) found))"

fun keyword_loop :: "query_engine \<Rightarrow> string list \<Rightarrow> pyerr + qresult list" where
  "keyword_loop q [] = Inr []"
| "keyword_loop q (keyword # keywords) =
     bindE (find_requirements_by_keyword q keyword) (\<lambda>keyword_results.
     bindE (keyword_loop q keywords) (\<lambda>more. Inr (keyword_results @ more)))"

text \<open>The de-duplication: \<open>result['entity']['id']\<close> against the set \<open>seen_ids\<close>.\<close>

fun unique_loop :: "qresult list \<Rightarrow> yval set \<Rightarrow> pyerr + qresult list" where
  "unique_loop [] seen_ids = Inr []"
| "unique_loop (r # rs) seen_ids =
     bindE (ditem (hit_entity r) ''id'') (\<lambda>ident.
       if \<not> hashable ident then Inl TypeError
       else if ident \<notin> seen_ids then
         bindE (unique_loop rs (insert ident seen_ids)) (\<lambda>more. Inr (r # more))
       else unique_loop rs seen_ids)"

definition process_keyword_query :: "query_engine \<Rightarrow> string \<Rightarrow> pyerr + qresult list" where
  "process_keyword_query q text =
     bindE (keyword_loop q (py_split text)) (\<lambda>found. unique_loop found {})"

text \<open>\<open>_detect_query_type\<close>: the first rule with a word that occurs in the lowercased text.\<close>

definition detect_query_type :: "string \<Rightarrow> string" where
  "detect_query_type text =
     (let query_lower = lower text;
          has = (\<lambda>ws. list_ex (\<lambda>w. is_substr w query_lower) ws)
      in if has [''impact'', ''affect'', ''change''] then ''impact''
         else if has [''implement'', ''cover'', ''relate''] then ''relationship''
         else if has [''pattern'', ''frequent'', ''common''] then ''pattern''
         else if has [''gap'', ''missing'', ''without''] then ''gap''
         else if has [''coverage'', ''complete''] then ''coverage''
         else ''keyword'')"

subsection \<open>Entity ids in a query text\<close>

text \<open>
  \<open>re.findall\<close> for a pattern \<open>PREFIX-\d+\<close> with \<open>re.IGNORECASE\<close>: the matches from left
  to right, each as it stands in the text; \<open>p\<close> is the prefix in lower case and \<open>skip\<close>
  the number of characters that belong to the match before.
\<close>

definition is_digit :: "char \<Rightarrow> bool" where
  "is_digit c = (let n = (of_char c :: nat) in 48 \<le> n \<and> n \<le> 57)"

fun findall_from :: "nat \<Rightarrow> string \<Rightarrow> string \<Rightarrow> string list" where
  "findall_from skip p [] = []"
| "findall_from skip p (c # cs) =
     (if skip > 0 then findall_from (skip - 1) p cs
      else
        (let digits = takeWhile is_digit (drop (length p) (c # cs)) in
         if lower (take (length p) (c # cs)) = p \<and> digits \<noteq> [] then
           take (length p + length digits) (c # cs)
             # findall_from (length p + length digits - 1) p cs
         else findall_from 0 p cs))"

definition find_entity_ids :: "string \<Rightarrow> string list" where
  "find_entity_ids text =
     concat (map (\<lambda>p. findall_from 0 p text) [''fr-'', ''nfr-'', ''uow-'', ''ctr-''])"

subsection \<open>Relationship queries\<close>

text \<open>\<open>_get_entity_by_id\<close>: the first entity whose \<open>get('id')\<close> equals the argument.\<close>

definition get_entity_by_id :: "jdict list \<Rightarrow> yval \<Rightarrow> jdict option" where
  "get_entity_by_id ents x = find (\<lambda>e. dget e ''id'' = x) ents"

definition direct_implementers :: "query_engine \<Rightarrow> string \<Rightarrow> (jdict \<times> jdict \<times> bool) list" where
  "direct_implementers q requirement_id =
     concat (map (\<lambda>rel.
        if dget rel ''type'' = YStr ''implements'' \<and> dget rel ''target'' = YStr requirement_id then
          (let uow_entity = get_entity_by_id (entities q) (dget rel ''source'') in
           if found uow_entity then [(the uow_entity, rel, True)] else [])
        else []) (relationships q))"

definition find_dependent_uows :: "query_engine \<Rightarrow> yval \<Rightarrow> jdict list" where
  "find_dependent_uows q uow_id =
     concat (map (\<lambda>rel.
        if dget rel ''type'' = YStr ''depends_on'' \<and> dget rel ''target'' = uow_id then
          (let dependent_entity = get_entity_by_id (entities q) (dget rel ''source'') in
           if found dependent_entity then [the dependent_entity] else [])
        else []) (relationships q))"

text \<open>
  The second loop of \<open>find_implementing_uows\<close> runs over the list it appends to, so it
  also visits what it has appended: \<open>i\<close> is the position reached. With a cycle of
  \<open>depends_on\<close> relationships it never ends; not returning is the value \<open>None\<close>.
\<close>

partial_function (option) dependents_loop ::
  "query_engine \<Rightarrow> nat \<Rightarrow> (jdict \<times> jdict \<times> bool) list \<Rightarrow> (pyerr + (jdict \<times> jdict \<times> bool) list) option"
where
  "dependents_loop q i implementing_uows =
     (if i < length implementing_uows then
        (case ditem (fst (implementing_uows ! i)) ''id'' of
           Inl e \<Rightarrow> Some (Inl e)
         | Inr uow_id \<Rightarrow>
             dependents_loop q (Suc i)
               (implementing_uows @
                map (\<lambda>indirect_uow. (indirect_uow, [(''type'', YStr ''indirect'')], False))
                  (find_dependent_uows q uow_id)))
      else Some (Inr implementing_uows))"

definition find_implementing_uows ::
  "query_engine \<Rightarrow> string \<Rightarrow> (pyerr + (jdict \<times> jdict \<times> bool) list) option" where
  "find_implementing_uows q requirement_id =
     dependents_loop q 0 (direct_implementers q requirement_id)"

fun find_related_contracts :: "jdict list \<Rightarrow> string \<Rightarrow> pyerr + qresult list" where
  "find_related_contracts [] ident = Inr []"
| "find_related_contracts (entity # rest) ident =
     (if dget entity ''type'' = YStr ''contract'' then
        (let applies_to = dget_or entity ''applies_to'' (YDict []) in
         bindE (py_get applies_to ''entity_name'' YNull) (\<lambda>name.
         bindE (find_related_contracts rest ident) (\<lambda>more.
           Inr (if name = YStr ident then RelatedContract entity applies_to # more else more))))
      else find_related_contracts rest ident)"

fun relationship_loop :: "query_engine \<Rightarrow> string list \<Rightarrow> (pyerr + qresult list) option" where
  "relationship_loop q [] = Some (Inr [])"
| "relationship_loop q (ident # idents) =
     (case (if take 3 ident = ''FR-'' \<or> take 4 ident = ''NFR-''
            then find_implementing_uows q ident else Some (Inr [])) of
        None \<Rightarrow> None
      | Some (Inl e) \<Rightarrow> Some (Inl e)
      | Some (Inr implementing_uows) \<Rightarrow>
          (case find_related_contracts (entities q) ident of
             Inl e \<Rightarrow> Some (Inl e)
           | Inr contracts \<Rightarrow>
               (case relationship_loop q idents of
                  None \<Rightarrow> None
                | Some (Inl e) \<Rightarrow> Some (Inl e)
                | Some (Inr others) \<Rightarrow>
                    Some (Inr (map (\<lambda>(u, rel, direct). ImplementingUow u rel direct)
                                 implementing_uows @ contracts @ others)))))"

definition process_relationship_query :: "query_engine \<Rightarrow> string \<Rightarrow> (pyerr + qresult list) option" where
  "process_relationship_query q text = relationship_loop q (find_entity_ids text)"

subsection \<open>Pattern queries\<close>

text \<open>
  \<open>list.sort(key=..., reverse=True)\<close>: descending, equal keys in their old order, which
  is the reverse of the ascending stable sort of the reversed list.
\<close>

definition sort_desc :: "('a \<Rightarrow> 'k::linorder) \<Rightarrow> 'a list \<Rightarrow> 'a list" where
  "sort_desc f xs = rev (sort_key f (rev xs))"

text \<open>
  The patterns are sorted by their \<open>frequency\<close>, a dynamic value. Numbers compare with
  numbers and strings with strings; the model takes every other mix as the TypeError
  that Python raises when two keys do not compare. A list of one needs no comparison.
\<close>

fun num_key :: "yval \<Rightarrow> int option" where
  "num_key (YInt n) = Some n"
| "num_key (YBool b) = Some (if b then 1 else 0)"
| "num_key _ = None"

fun str_key :: "yval \<Rightarrow> string option" where
  "str_key (YStr s) = Some s"
| "str_key _ = None"

definition sort_by_value :: "('a \<Rightarrow> yval) \<Rightarrow> 'a list \<Rightarrow> pyerr + 'a list" where
  "sort_by_value f xs =
     (if length xs \<le> 1 then Inr xs
      else if list_all (\<lambda>x. num_key (f x) \<noteq> None) xs
        then Inr (sort_desc (\<lambda>x. the (num_key (f x))) xs)
      else if list_all (\<lambda>x. str_key (f x) \<noteq> None) xs
        then Inr (sort_desc (\<lambda>x. the (str_key (f x))) xs)
      else Inl TypeError)"

fun pattern_scan :: "string option \<Rightarrow> (string \<times> yval) list \<Rightarrow> pyerr + (string \<times> yval \<times> yval) list" where
  "pattern_scan pattern_type [] = Inr []"
| "pattern_scan pattern_type ((pattern_id, pattern_data) # rest) =
     bindE (case pattern_type of
              None \<Rightarrow> Inr True
            | Some t \<Rightarrow> bindE (py_get pattern_data ''category'' YNull) (\<lambda>c. Inr (c = YStr t)))
       (\<lambda>wanted.
          if wanted then
            bindE (py_get pattern_data ''frequency'' (YInt 0)) (\<lambda>frequency.
            bindE (pattern_scan pattern_type rest) (\<lambda>others.
              Inr ((pattern_id, pattern_data, frequency) # others)))
          else pattern_scan pattern_type rest)"

definition search_patterns :: "query_engine \<Rightarrow> string option \<Rightarrow> pyerr + qresult list" where
  "search_patterns q pattern_type =
     (case map_of (knowledge q) ''patterns'' of
        None \<Rightarrow> Inr []
      | Some pats \<Rightarrow>
          bindE (py_items pats) (\<lambda>kvs.
          bindE (pattern_scan pattern_type kvs) (\<lambda>patterns.
          bindE (sort_by_value (\<lambda>(i, p, f). f) patterns) (\<lambda>sorted_patterns.
            Inr (map (\<lambda>(i, p, f). PatternHit i p f) sorted_patterns)))))"

definition pattern_keywords :: "(string \<times> string) list" where
  "pattern_keywords = [(''error'', ''error_handling''), (''validation'', ''data_validation''),
     (''config'', ''configuration''), (''test'', ''testing''), (''performance'', ''performance'')]"

definition process_pattern_query :: "query_engine \<Rightarrow> string \<Rightarrow> pyerr + qresult list" where
  "process_pattern_query q text =
     search_patterns q
       (map_option snd (find (\<lambda>(keyword, p_type). is_substr keyword (lower text)) pattern_keywords))"

subsection \<open>Impact queries\<close>

text \<open>
  The Query Engine's own \<open>analyze_impact\<close>. Its lists are filled in place inside a
  \<open>try\<close>, so what was appended before an exception stays in the returned analysis, with
  the exception under \<open>"error"\<close>.
\<close>

definition query_impact_type :: "jdict \<Rightarrow> string" where
  "query_impact_type rel =
     (let rel_type = dget rel ''type'' in
      if rel_type = YStr ''implements'' then ''implementation_change''
      else if rel_type = YStr ''depends_on'' then ''dependency_impact''
      else if rel_type = YStr ''validates'' then ''contract_validation''
      else ''general_impact'')"

definition query_direct_impacts :: "query_engine \<Rightarrow> string \<Rightarrow> (jdict \<times> jdict \<times> string) list" where
  "query_direct_impacts q ident =
     concat (map (\<lambda>rel.
        (let related_entity = get_entity_by_id (entities q) (other_end rel (YStr ident)) in
         if found related_entity then [(the related_entity, rel, query_impact_type rel)] else []))
       (touching (relationships q) (YStr ident)))"

fun indirect_rel_loop ::
  "query_engine \<Rightarrow> string \<Rightarrow> yval \<Rightarrow> jdict list \<Rightarrow> (jdict \<times> jdict \<times> yval \<times> string) list
   \<Rightarrow> (jdict \<times> jdict \<times> yval \<times> string) list \<times> pyerr option" where
  "indirect_rel_loop q ident via [] acc = (acc, None)"
| "indirect_rel_loop q ident via (indirect_rel # rest) acc =
     (let related_entity = get_entity_by_id (entities q) (other_end indirect_rel via) in
      if found related_entity then
        (case ditem (the related_entity) ''id'' of
           Inl e \<Rightarrow> (acc, Some e)
         | Inr related_id \<Rightarrow>
             if related_id \<noteq> YStr ident then
               indirect_rel_loop q ident via rest
                 (acc @ [(the related_entity, indirect_rel, via, ''indirect'')])
             else indirect_rel_loop q ident via rest acc)
      else indirect_rel_loop q ident via rest acc)"

fun indirect_impact_loop ::
  "query_engine \<Rightarrow> string \<Rightarrow> (jdict \<times> jdict \<times> string) list \<Rightarrow> (jdict \<times> jdict \<times> yval \<times> string) list
   \<Rightarrow> (jdict \<times> jdict \<times> yval \<times> string) list \<times> pyerr option" where
  "indirect_impact_loop q ident [] acc = (acc, None)"
| "indirect_impact_loop q ident ((entity, rel, ty) # rest) acc =
     (if relationships q = [] then indirect_impact_loop q ident rest acc
      else case ditem entity ''id'' of
        Inl e \<Rightarrow> (acc, Some e)
      | Inr via \<Rightarrow>
          (case indirect_rel_loop q ident via
                  (filter (\<lambda>r. r \<notin> set (touching (relationships q) (YStr ident)))
                     (touching (relationships q) via)) acc of
             (acc', Some e) \<Rightarrow> (acc', Some e)
           | (acc', None) \<Rightarrow> indirect_impact_loop q ident rest acc'))"

text \<open>\<open>total * 1.5\<close> against 10 and 5, in halves.\<close>

definition calculate_risk_level :: "nat \<Rightarrow> nat \<Rightarrow> yval \<Rightarrow> string" where
  "calculate_risk_level direct_count indirect_count etype =
     (let total_impacts = direct_count + indirect_count;
          doubled = (if etype \<in> set [YStr ''functional_requirement'', YStr ''contract'']
                     then 3 * total_impacts else 2 * total_impacts)
      in if doubled \<ge> 20 then ''high'' else if doubled \<ge> 10 then ''medium'' else ''low'')"

definition query_recommendations :: "jdict \<Rightarrow> nat \<Rightarrow> nat \<Rightarrow> string list" where
  "query_recommendations entity direct_count indirect_count =
     (if direct_count > 5
      then [''Consider breaking down this entity due to high coupling''] else [])
     @ (if indirect_count > 10
        then [''Review architecture to reduce indirect dependencies''] else [])
     @ (if dget entity ''type'' = YStr ''functional_requirement'' \<and> direct_count = 0
        then [''This requirement has no implementing UoWs - consider adding implementation'']
        else [])"

text \<open>\<open>analyze_impact\<close> and \<open>_process_impact_query\<close>; the analysis timestamp is left out.\<close>

definition analyze_impact :: "query_engine \<Rightarrow> string \<Rightarrow> string \<Rightarrow> impact_analysis" where
  "analyze_impact q ident ctype =
     (let analysis = \<lparr>analysis_entity_id = ident, analysis_change_type = ctype,
                       analysis_direct = [], analysis_indirect = [], risk_level = ''low'',
                       analysis_recommendations = [], analysis_error = None\<rparr>;
          entity = get_entity_by_id (entities q) (YStr ident)
      in if \<not> found entity then analysis\<lparr>analysis_error := Some (NotFound ident)\<rparr>
         else
           (let direct = query_direct_impacts q ident;
                analysis = analysis\<lparr>analysis_direct := direct\<rparr>
            in case indirect_impact_loop q ident direct [] of
                 (indirect, Some e) \<Rightarrow>
                   analysis\<lparr>analysis_indirect := indirect, analysis_error := Some (Raised e)\<rparr>
               | (indirect, None) \<Rightarrow>
                   analysis\<lparr>analysis_indirect := indirect,
                     risk_level := calculate_risk_level (length direct) (length indirect)
                                     (dget (the entity) ''type''),
                     analysis_recommendations :=
                       query_recommendations (the entity) (length direct) (length indirect)\<rparr>))"

definition process_impact_query :: "query_engine \<Rightarrow> string \<Rightarrow> qresult list" where
  "process_impact_query q text =
     map (\<lambda>ident. ImpactHit ident (analyze_impact q ident ''modification''))
       (find_entity_ids text)"

subsection \<open>Coverage and gap queries\<close>

text \<open>\<open>[x[key] for x in xs if P x]\<close>.\<close>

fun collect :: "string \<Rightarrow> (jdict \<Rightarrow> bool) \<Rightarrow> jdict list \<Rightarrow> pyerr + yval list" where
  "collect key P [] = Inr []"
| "collect key P (x # xs) =
     (if P x then
        bindE (ditem x key) (\<lambda>v. bindE (collect key P xs) (\<lambda>vs. Inr (v # vs)))
      else collect key P xs)"

fun contracted_scan :: "jdict list \<Rightarrow> pyerr + yval list" where
  "contracted_scan [] = Inr []"
| "contracted_scan (entity # rest) =
     (if dget entity ''type'' = YStr ''contract'' then
        (let applies_to = dget_or entity ''applies_to'' (YDict []) in
         bindE (py_get applies_to ''entity_type'' YNull) (\<lambda>ty.
           if ty = YStr ''uow'' then
             bindE (py_get applies_to ''entity_name'' YNull) (\<lambda>name.
             bindE (contracted_scan rest) (\<lambda>names. Inr (name # names)))
           else contracted_scan rest))
      else contracted_scan rest)"

text \<open>\<open>re.search(r'uow[_-](\d+)', stem)\<close>: the digits of the leftmost match.\<close>

fun search_uow :: "string \<Rightarrow> string option" where
  "search_uow [] = None"
| "search_uow (c # cs) =
     (let digits = takeWhile is_digit (drop 4 (c # cs)) in
      if take 3 (c # cs) = ''uow'' \<and>
         (take 1 (drop 3 (c # cs)) = ''_'' \<or> take 1 (drop 3 (c # cs)) = ''-'') \<and> digits \<noteq> []
      then Some digits else search_uow cs)"

definition uows_with_bdd :: "query_engine \<Rightarrow> yval list" where
  "uows_with_bdd q =
     (case feature_files q of
        None \<Rightarrow> []
      | Some stems \<Rightarrow>
          concat (map (\<lambda>stem. case search_uow stem of
                                 Some uow_num \<Rightarrow> [YStr (''UoW-'' @ uow_num)]
                               | None \<Rightarrow> []) stems))"

fun orphaned_scan :: "yval list \<Rightarrow> jdict list \<Rightarrow> pyerr + yval list" where
  "orphaned_scan valid_entity_ids [] = Inr []"
| "orphaned_scan valid_entity_ids (entity # rest) =
     (if dget entity ''type'' = YStr ''contract'' then
        (let applies_to = dget_or entity ''applies_to'' (YDict []) in
         bindE (py_get applies_to ''entity_name'' YNull) (\<lambda>target_entity.
           if py_truthy target_entity \<and> target_entity \<notin> set valid_entity_ids then
             bindE (ditem entity ''id'') (\<lambda>ident.
             bindE (orphaned_scan valid_entity_ids rest) (\<lambda>idents. Inr (ident # idents)))
           else orphaned_scan valid_entity_ids rest))
      else orphaned_scan valid_entity_ids rest)"

definition analyze_coverage_gaps :: "query_engine \<Rightarrow> pyerr + coverage_gaps" where
  "analyze_coverage_gaps q =
     bindE (collect ''id'' (\<lambda>e. dget e ''type'' \<in> set requirement_types) (entities q))
       (\<lambda>requirement_ids.
     bindE (collect ''target'' (\<lambda>r. dget r ''type'' = YStr ''implements'') (relationships q))
       (\<lambda>implemented_reqs.
     bindE (collect ''id'' (\<lambda>e. dget e ''type'' = YStr ''unit_of_work'') (entities q))
       (\<lambda>uow_ids.
     bindE (contracted_scan (entities q)) (\<lambda>contracted_uows.
     bindE (collect ''id'' (\<lambda>e. True) (entities q)) (\<lambda>valid_entity_ids.
     bindE (orphaned_scan valid_entity_ids (entities q)) (\<lambda>orphaned.
       Inr \<lparr>requirements_without_uows =
              filter (\<lambda>req_id. req_id \<notin> set implemented_reqs) requirement_ids,
            uows_without_contracts =
              filter (\<lambda>uow_id. uow_id \<notin> set contracted_uows) uow_ids,
            uows_without_bdd =
              filter (\<lambda>uow_id. uow_id \<notin> set (uows_with_bdd q)) uow_ids,
            orphaned_contracts = orphaned\<rparr>))))))"

definition process_coverage_query :: "query_engine \<Rightarrow> string \<Rightarrow> pyerr + qresult list" where
  "process_coverage_query q text =
     bindE (analyze_coverage_gaps q) (\<lambda>coverage_gaps. Inr [CoverageHit coverage_gaps])"

definition process_gap_query :: "query_engine \<Rightarrow> string \<Rightarrow> pyerr + qresult list" where
  "process_gap_query q text = process_coverage_query q text"

subsection \<open>Query\<close>

text \<open>
  \<open>query\<close>: the processor of the (detected) type, the keyword processor for a type
  that has none; an exception of the processor is caught and returned in the metadata,
  with no results. \<open>now\<close> is the clock reading of the timestamp; the measured execution
  time is left out. The result is \<open>None\<close> when a relationship query does not return.
\<close>

definition query_processor :: "query_engine \<Rightarrow> string \<Rightarrow> string \<Rightarrow> (pyerr + qresult list) option" where
  "query_processor q qtype text =
     (if qtype = ''keyword'' then Some (process_keyword_query q text)
      else if qtype = ''relationship'' then process_relationship_query q text
      else if qtype = ''pattern'' then Some (process_pattern_query q text)
      else if qtype = ''impact'' then Some (Inr (process_impact_query q text))
      else if qtype = ''coverage'' then Some (process_coverage_query q text)
      else if qtype = ''gap'' then Some (process_gap_query q text)
      else Some (process_keyword_query q text))"

definition query_outcome :: "string \<Rightarrow> string \<Rightarrow> string \<Rightarrow> pyerr + qresult list \<Rightarrow> query_result" where
  "query_outcome now text qtype outcome =
     (case outcome of
        Inr hits \<Rightarrow>
          \<lparr>query_text = text, results = hits,
           metadata = \<lparr>error = None, query_type = qtype, timestamp = now,
                       results_count = Some (length hits)\<rparr>\<rparr>
      | Inl e \<Rightarrow>
          \<lparr>query_text = text, results = [],
           metadata = \<lparr>error = Some e, query_type = qtype, timestamp = now,
                       results_count = None\<rparr>\<rparr>)"

definition query :: "query_engine \<Rightarrow> string \<Rightarrow> string \<Rightarrow> string \<Rightarrow> query_result option" where
  "query q now text qtype =
     (let qtype = (if qtype = ''auto'' then detect_query_type text else qtype) in
      map_option (query_outcome now text qtype) (query_processor q qtype text))"

section \<open>Loading the index\<close>

text \<open>
  \<open>_load_entities\<close> and \<open>_load_relationships\<close>, the same in the Query Engine and the
  Impact Analyzer: the parsed file when it exists, else the empty list. A file that does
  not parse raises \<open>json.JSONDecodeError\<close>, a \<open>ValueError\<close>. The code takes whatever
  document the file holds; the model asks at once for what the code expects, a list of
  objects, where Python would fail at the first use.
\<close>

fun as_dicts :: "yval list \<Rightarrow> pyerr + jdict list" where
  "as_dicts [] = Inr []"
| "as_dicts (YDict d # vs) = bindE (as_dicts vs) (\<lambda>ds. Inr (d # ds))"
| "as_dicts (_ # vs) = Inl TypeError"

definition load_json_list :: "store \<Rightarrow> string \<Rightarrow> pyerr + jdict list" where
  "load_json_list s name =
     (case s name of
        None \<Rightarrow> Inr []
      | Some Truncated \<Rightarrow> Inl (ValueError ''JSONDecodeError'')
      | Some (Written (YList vs)) \<Rightarrow> as_dicts vs
      | Some (Written _) \<Rightarrow> Inl TypeError)"

definition query_engine_init :: "store \<Rightarrow> jdict \<Rightarrow> string list option \<Rightarrow> pyerr + query_engine" where
  "query_engine_init s kn features =
     bindE (load_json_list s ''entities.json'') (\<lambda>ents.
     bindE (load_json_list s ''relationships.json'') (\<lambda>rels.
       Inr \<lparr>entities = ents, relationships = rels, knowledge = kn, feature_files = features\<rparr>))"

definition analyzer_load :: "store \<Rightarrow> pyerr + analyzer" where
  "analyzer_load s =
     bindE (load_json_list s ''entities.json'') (\<lambda>ents.
     bindE (load_json_list s ''relationships.json'') (\<lambda>rels. analyzer_init ents rels))"

section \<open>Impact Analyzer: impact matrix and critical dependencies\<close>

text \<open>
  \<open>_find_shortest_path\<close>, a breadth-first search. \<open>path_step\<close> is the loop over the
  entities connected to the dequeued one: it returns the path when it meets the target,
  else the new \<open>visited\<close> set and queue.
\<close>

fun path_step ::
  "yval \<Rightarrow> yval list \<Rightarrow> yval list \<Rightarrow> yval set \<times> (yval \<times> yval list) list
   \<Rightarrow> pyerr + (yval list + yval set \<times> (yval \<times> yval list) list)" where
  "path_step target current_path [] st = Inr (Inr st)"
| "path_step target current_path (next_entity # rest) (visited, queue) =
     (if next_entity = target then Inr (Inl (current_path @ [target]))
      else if \<not> hashable next_entity then Inl TypeError
      else if next_entity \<notin> visited then
        path_step target current_path rest
          (insert next_entity visited, queue @ [(next_entity, current_path @ [next_entity])])
      else path_step target current_path rest (visited, queue))"

definition connected_to :: "jdict list \<Rightarrow> yval \<Rightarrow> yval list" where
  "connected_to rels current = map (\<lambda>rel. other_end rel current) (touching rels current)"

lemma connected_to_endpoints: "set (connected_to rels current) \<subseteq> endpoints rels"
  by (auto simp: connected_to_def touching_def other_end_endpoints)

lemma path_step_measure:
  "path_step target p ns (v, q) = Inr (Inr (v', q')) \<Longrightarrow> set ns \<subseteq> endpoints rels \<Longrightarrow>
   length q' + card (endpoints rels - v') \<le> length q + card (endpoints rels - v)"
proof (induction ns arbitrary: v q)
  case Nil
  then show ?case by simp
next
  case (Cons n ns)
  have sub: "set ns \<subseteq> endpoints rels" and mem: "n \<in> endpoints rels"
    using Cons.prems(2) by simp_all
  from Cons.prems(1) consider
      (seen) "n \<in> v" "path_step target p ns (v, q) = Inr (Inr (v', q'))"
    | (new) "n \<notin> v"
        "path_step target p ns (insert n v, q @ [(n, p @ [n])]) = Inr (Inr (v', q'))"
    by (simp split: if_splits)
  then show ?case
  proof cases
    case seen
    from Cons.IH[OF seen(2) sub] show ?thesis .
  next
    case new
    from Cons.IH[OF new(2) sub] card_endpoints_insert[OF mem new(1)]
    show ?thesis by simp
  qed
qed

function shortest_loop ::
  "jdict list \<Rightarrow> yval \<Rightarrow> (yval \<times> yval list) list \<Rightarrow> yval set \<Rightarrow> pyerr + yval list option"
where
  "shortest_loop rels target [] visited = Inr None"
| "shortest_loop rels target ((current, current_path) # queue) visited =
     (case path_step target current_path (connected_to rels current) (visited, queue) of
        Inl e \<Rightarrow> Inl e
      | Inr (Inl found_path) \<Rightarrow> Inr (Some found_path)
      | Inr (Inr (visited', queue')) \<Rightarrow> shortest_loop rels target queue' visited')"
  by pat_completeness auto
termination
proof (relation "measure (\<lambda>(rels, target, queue, visited).
          length queue + card (endpoints rels - visited))")
  show "wf (measure (\<lambda>(rels, target, queue, visited).
          length queue + card (endpoints rels - visited)))"
    by simp
next
  fix rels :: "jdict list" and target current current_path queue visited x2 b x y
  assume "path_step target current_path (connected_to rels current) (visited, queue) = Inr x2"
    and "x2 = Inr b" and "(x, y) = b"
  then have "path_step target current_path (connected_to rels current) (visited, queue)
               = Inr (Inr (x, y))"
    by simp
  from path_step_measure[OF this connected_to_endpoints]
  show "((rels, target, y, x), (rels, target, (current, current_path) # queue, visited))
        \<in> measure (\<lambda>(rels, target, queue, visited).
             length queue + card (endpoints rels - visited))"
    by simp
qed

definition find_shortest_path :: "analyzer \<Rightarrow> string \<Rightarrow> string \<Rightarrow> pyerr + yval list option" where
  "find_shortest_path a src target =
     (if src = target then Inr (Some [YStr src])
      else shortest_loop (relationships a) (YStr target) [(YStr src, [YStr src])] {YStr src})"

definition calculate_entity_impact :: "analyzer \<Rightarrow> string \<Rightarrow> string \<Rightarrow> pyerr + string" where
  "calculate_entity_impact a src target =
     bindE (find_shortest_path a src target) (\<lambda>found_path.
       Inr (case found_path of
              None \<Rightarrow> ''none''
            | Some p \<Rightarrow>
                if p = [] then ''none''
                else if length p = 2 then ''high''
                else if length p = 3 then ''medium''
                else ''low''))"

text \<open>
  \<open>generate_impact_matrix\<close>: for every listed entity a row, emptied when the entity is
  listed again, with the impact level on every other listed entity.
\<close>

fun matrix_row ::
  "analyzer \<Rightarrow> string \<Rightarrow> string list \<Rightarrow> (string \<times> string) list \<Rightarrow> pyerr + (string \<times> string) list" where
  "matrix_row a src [] row = Inr row"
| "matrix_row a src (target # targets) row =
     (if src \<noteq> target then
        bindE (calculate_entity_impact a src target) (\<lambda>impact_level.
          matrix_row a src targets (dict_set row target impact_level))
      else matrix_row a src targets row)"

fun matrix_loop ::
  "analyzer \<Rightarrow> string list \<Rightarrow> string list \<Rightarrow> (string \<times> (string \<times> string) list) list
   \<Rightarrow> pyerr + (string \<times> (string \<times> string) list) list" where
  "matrix_loop a ids [] impact_matrix = Inr impact_matrix"
| "matrix_loop a ids (src # rest) impact_matrix =
     bindE (matrix_row a src ids []) (\<lambda>row.
       matrix_loop a ids rest (dict_set impact_matrix src row))"

definition generate_impact_matrix ::
  "analyzer \<Rightarrow> string list \<Rightarrow> pyerr + (string \<times> (string \<times> string) list) list" where
  "generate_impact_matrix a ids = matrix_loop a ids ids []"

text \<open>
  \<open>find_critical_dependencies\<close>. The score is a sum of decimal fractions, floats in the
  source and rationals here, so an entity whose score is 0.7 up to rounding may fall on
  the other side of the threshold in Python.
\<close>

record critical_dependency =
  dep_entity :: jdict
  criticality_score :: rat
  incoming_dependencies :: nat
  outgoing_dependencies :: nat
  dep_risk_factors :: "string list"

definition calculate_criticality_score :: "jdict \<Rightarrow> nat \<Rightarrow> nat \<Rightarrow> rat" where
  "calculate_criticality_score entity incoming outgoing =
     (let etype = dget_or entity ''type'' (YStr ''unknown'');
          score = (if etype = YStr ''functional_requirement'' then 4 / 10
                   else if etype = YStr ''contract'' then 3 / 10
                   else if etype = YStr ''unit_of_work'' then 2 / 10
                   else 0);
          score = score + min (of_nat incoming * (1 / 10)) (4 / 10);
          score = score + min (of_nat outgoing * (5 / 100)) (2 / 10)
      in min score 1)"

definition identify_risk_factors :: "jdict \<Rightarrow> nat \<Rightarrow> nat \<Rightarrow> string list" where
  "identify_risk_factors entity incoming outgoing =
     (if incoming > 5 then [''High number of dependent entities''] else [])
     @ (if outgoing > 3 then [''High complexity with multiple dependencies''] else [])
     @ (if dget_or entity ''type'' (YStr ''unknown'')
             \<in> set [YStr ''functional_requirement'', YStr ''contract'']
        then [''Critical entity type''] else [])"

fun critical_scan :: "analyzer \<Rightarrow> jdict list \<Rightarrow> pyerr + critical_dependency list" where
  "critical_scan a [] = Inr []"
| "critical_scan a (entity # rest) =
     bindE (ditem entity ''id'') (\<lambda>ident.
       let incoming = length (filter (\<lambda>r. dget r ''target'' = ident \<and>
                         dget r ''type'' \<in> set [YStr ''depends_on'', YStr ''implements''])
                         (relationships a));
           outgoing = length (filter (\<lambda>r. dget r ''source'' = ident \<and>
                         dget r ''type'' \<in> set [YStr ''depends_on'']) (relationships a));
           score = calculate_criticality_score entity incoming outgoing
       in bindE (critical_scan a rest) (\<lambda>others.
            Inr (if score \<ge> 7 / 10
                 then \<lparr>dep_entity = entity, criticality_score = score,
                       incoming_dependencies = incoming, outgoing_dependencies = outgoing,
                       dep_risk_factors = identify_risk_factors entity incoming outgoing\<rparr> # others
                 else others)))"

definition find_critical_dependencies :: "analyzer \<Rightarrow> pyerr + critical_dependency list" where
  "find_critical_dependencies a =
     bindE (critical_scan a (entities a)) (\<lambda>critical_deps.
       Inr (sort_desc criticality_score critical_deps))"

subsection \<open>Example engines\<close>

text \<open>Two requirements with the same text, the one with the greater id first.\<close>

definition tie_engine :: query_engine where
  "tie_engine =
     \<lparr>entities = [[(''id'', YStr ''FR-002''), (''type'', YStr ''functional_requirement''),
                    (''title'', YStr ''Login'')],
                   [(''id'', YStr ''FR-001''), (''type'', YStr ''functional_requirement''),
                    (''title'', YStr ''Login'')]],
      relationships = [], knowledge = [], feature_files = None\<rparr>"

text \<open>The engine over an index store without files.\<close>

definition empty_engine :: "jdict \<Rightarrow> string list option \<Rightarrow> query_engine" where
  "empty_engine kn features =
     \<lparr>entities = [], relationships = [], knowledge = kn, feature_files = features\<rparr>"

definition empty_analyzer :: analyzer where
  "empty_analyzer = \<lparr>entities = [], relationships = [], entity_index = Map.empty\<rparr>"

definition no_gaps :: coverage_gaps where
  "no_gaps = \<lparr>requirements_without_uows = [], uows_without_contracts = [],
              uows_without_bdd = [], orphaned_contracts = []\<rparr>"

section \<open>Properties\<close>

subsection \<open>Impact Analyzer: severity of direct impacts\<close>

lemma pair_graph_init:
  "analyzer_init (entities pair_graph) (relationships pair_graph) = Inr pair_graph"
  by (simp add: analyzer_init_def pair_graph_def bindE_def mk_entity_def)

lemma calculate_impact_severity_sum:
  "calculate_impact_severity rel ent ctype = spec_bucket (1 + spec_sum rel ent ctype)"
  by (simp add: calculate_impact_severity_def spec_bucket_def spec_sum_def spec_rel_weight_def
        spec_entity_weight_def spec_change_weight_def Let_def)

lemma direct_loop_sound:
  "direct_loop a eid ctype rels = Inr items \<Longrightarrow> it \<in> set items \<Longrightarrow>
   \<exists>rel \<in> set rels. \<exists>ent. entity_index a (entity_id it) = Some ent \<and>
      entity_id it = other_end rel (YStr eid) \<and>
      severity it = calculate_impact_severity rel ent ctype"
proof (induction rels arbitrary: items)
  case Nil
  then show ?case by simp
next
  case (Cons rel rels)
  let ?n = "other_end rel (YStr eid)"
  show ?case
  proof (cases "hashable ?n \<and> found (entity_index a ?n)")
    case False
    with Cons.prems have "direct_loop a eid ctype rels = Inr items"
      by (auto simp: Let_def index_get_def split: if_splits)
    from Cons.IH[OF this Cons.prems(2)] show ?thesis by auto
  next
    case True
    then obtain ent where ent: "entity_index a ?n = Some ent"
      by (cases "entity_index a ?n") auto
    from True Cons.prems(1) ent obtain rest where
      rest: "direct_loop a eid ctype rels = Inr rest" and
      items: "items = \<lparr>entity_id = ?n,
                     entity_type = dget_or ent ''type'' (YStr ''unknown''),
                     impact_type = determine_impact_type rel ctype,
                     severity = calculate_impact_severity rel ent ctype,
                     path = [YStr eid, ?n],
                     recommendations = generate_impact_recommendations rel ent ctype\<rparr> # rest"
      by (auto simp: Let_def index_get_def bindE_def split: sum.splits)
    from Cons.prems(2) items consider (hd) "it = hd items" | (tl) "it \<in> set rest"
      by auto
    then show ?thesis
    proof cases
      case hd
      with items ent show ?thesis by auto
    next
      case tl
      from Cons.IH[OF rest tl] show ?thesis by auto
    qed
  qed
qed

lemma report_direct_impacts:
  "it \<in> set (direct_impacts (analyze_change_impact a now eid ctype)) \<Longrightarrow>
   \<exists>items. analyze_direct_impacts a eid ctype = Inr items \<and> it \<in> set items"
  by (auto simp: analyze_change_impact_def failed_with_def Let_def
           split: if_splits sum.splits)

text \<open>
  Claim C3, as amended. Every direct impact in the report of \<open>analyze_change_impact\<close>
  comes from a relationship with the changed entity at one end and an indexed entity at
  the other, and its severity is the bucket of \<open>1 + s\<close>, where \<open>s\<close> is the sum of the
  relationship-type, entity-type and change-type weights: the code starts the sum at 1,
  so \<open>s = 0\<close> is low, 1 to 2 medium, 3 to 4 high, 5 and more critical.
\<close>

theorem direct_impact_severity:
  assumes "it \<in> set (direct_impacts (analyze_change_impact a now eid ctype))"
  shows "\<exists>rel \<in> set (relationships a). \<exists>ent.
           (dget rel ''source'' = YStr eid \<or> dget rel ''target'' = YStr eid) \<and>
           entity_id it = other_end rel (YStr eid) \<and>
           entity_index a (entity_id it) = Some ent \<and>
           severity it = spec_bucket (1 + spec_sum rel ent ctype)"
proof -
  from report_direct_impacts[OF assms] obtain items where
    "direct_loop a eid ctype (touching (relationships a) (YStr eid)) = Inr items" "it \<in> set items"
    by (auto simp: analyze_direct_impacts_def)
  from direct_loop_sound[OF this] show ?thesis
    by (auto simp: touching_def calculate_impact_severity_sum)
qed

lemma pair_graph_direct:
  "direct_impacts (analyze_change_impact pair_graph ''t'' ''FR-001'' ''modification'') = [pair_item]"
  by code_simp

text \<open>
  Claim C3 as stated fails: for a modification of \<open>FR-001\<close>, the unit of work that
  implements it has \<open>s = 2 + 1 + 0 = 3\<close>, which the stated buckets call medium; the code
  reports high.
\<close>

theorem direct_impact_severity_counterexample:
  "map severity (direct_impacts (analyze_change_impact pair_graph ''2026-01-01T00:00:00'' ''FR-001'' ''modification''))
     = [''high''] \<and>
   spec_bucket (spec_rel_weight (YStr ''implements'') + spec_entity_weight (YStr ''unit_of_work'')
                + spec_change_weight ''modification'') = ''medium''"
  by code_simp

theorem direct_impact_severity_witness:
  "pair_item \<in> set (direct_impacts (analyze_change_impact pair_graph ''t'' ''FR-001'' ''modification''))
   \<and> (\<exists>rel \<in> set (relationships pair_graph). \<exists>ent.
           (dget rel ''source'' = YStr ''FR-001'' \<or> dget rel ''target'' = YStr ''FR-001'') \<and>
           entity_id pair_item = other_end rel (YStr ''FR-001'') \<and>
           entity_index pair_graph (entity_id pair_item) = Some ent \<and>
           severity pair_item = spec_bucket (1 + spec_sum rel ent ''modification''))"
proof -
  have h: "pair_item \<in> set (direct_impacts (analyze_change_impact pair_graph ''t'' ''FR-001'' ''modification''))"
    by (simp add: pair_graph_direct)
  from h direct_impact_severity[OF h] show ?thesis by simp
qed

subsection \<open>Impact Analyzer: an entity that is not in the graph\<close>

lemma build_index_absent:
  "build_index es m = Inr idx \<Longrightarrow> k \<notin> set (map (\<lambda>e. dget e ''id'') es) \<Longrightarrow> idx k = m k"
proof (induction es arbitrary: m)
  case Nil
  then show ?case by simp
next
  case (Cons e es)
  from Cons.prems(1) obtain k' where k': "map_of e ''id'' = Some k'"
    and rest: "build_index es (m(k' \<mapsto> e)) = Inr idx"
    by (auto split: option.splits if_splits)
  from k' Cons.prems(2) have "k' \<noteq> k" by (auto simp: dget_def)
  moreover from Cons.IH[OF rest] Cons.prems(2) have "idx k = (m(k' \<mapsto> e)) k" by simp
  ultimately show ?case by simp
qed

text \<open>
  Claim C6. When the analyzer was built from an index in which no entity has the id
  \<open>eid\<close>, \<open>analyze_change_impact\<close> raises \<open>ValueError("Entity eid not found")\<close>,
  catches it, and returns to the caller a report whose \<open>risk_assessment\<close> is that error
  and which holds no impact, strategy or recommendation: an error result, not a crash.
\<close>

theorem entity_not_found:
  assumes "analyzer_init ents rels = Inr a"
    and "YStr eid \<notin> set (map (\<lambda>e. dget e ''id'') ents)"
  shows "analyze_change_impact a now eid ctype =
           \<lparr>source_entity = eid, change_type = ctype, analysis_timestamp = now,
            direct_impacts = [], indirect_impacts = [], cascade_impacts = [],
            risk_assessment = RiskError (ValueError (''Entity '' @ eid @ '' not found'')),
            mitigation_strategies = [], affected_layers = {}, testing_recommendations = []\<rparr>"
proof -
  from assms(1) obtain idx where idx: "build_index ents Map.empty = Inr idx"
    and a: "a = \<lparr>entities = ents, relationships = rels, entity_index = idx\<rparr>"
    by (auto simp: analyzer_init_def bindE_def split: sum.splits)
  from build_index_absent[OF idx assms(2)] a have "entity_index a (YStr eid) = None"
    by simp
  then show ?thesis
    by (simp add: analyze_change_impact_def failed_with_def Let_def)
qed

theorem entity_not_found_witness:
  "analyzer_init (entities pair_graph) (relationships pair_graph) = Inr pair_graph \<and>
   YStr ''FR-999'' \<notin> set (map (\<lambda>e. dget e ''id'') (entities pair_graph)) \<and>
   analyze_change_impact pair_graph ''2026-01-01T00:00:00'' ''FR-999'' ''removal'' =
           \<lparr>source_entity = ''FR-999'', change_type = ''removal'',
            analysis_timestamp = ''2026-01-01T00:00:00'',
            direct_impacts = [], indirect_impacts = [], cascade_impacts = [],
            risk_assessment = RiskError (ValueError (''Entity FR-999 not found'')),
            mitigation_strategies = [], affected_layers = {}, testing_recommendations = []\<rparr>"
proof -
  have h: "YStr ''FR-999'' \<notin> set (map (\<lambda>e. dget e ''id'') (entities pair_graph))"
    by (simp add: pair_graph_def mk_entity_def dget_def)
  from entity_not_found[OF pair_graph_init h, of "''2026-01-01T00:00:00''" "''removal''"]
    pair_graph_init h
  show ?thesis by simp
qed

subsection \<open>Impact Analyzer: the cascade caps\<close>

text \<open>
  Claim C2 at a failing input. The cap of 20 is tested only when an entity is taken
  from the queue; the loop over that entity's relationships appends without looking at
  it. From \<open>A\<close> in the fan graph, \<open>C\<close> is dequeued with no cascade item yet, and all
  twenty-one \<open>D\<close>s are appended.
\<close>

theorem cascade_cap_exceeded:
  "map_sum id (\<lambda>a. length (cascade_impacts
        (analyze_change_impact a ''2026-01-01T00:00:00'' ''A'' ''modification'')))
     (analyzer_init fan_entities fan_relationships) = Inr 21"
  by code_simp

lemma cascade_step_paths:
  "cascade_step a c p rs (v, ci, q) = Inr (v', ci', q') \<Longrightarrow> length p < 5 \<Longrightarrow>
   list_all (\<lambda>it. length (path it) \<le> 5) ci \<Longrightarrow> list_all (\<lambda>it. length (path it) \<le> 5) ci'"
proof (induction rs arbitrary: v ci q)
  case Nil
  then show ?case by simp
next
  case (Cons r rs)
  let ?n = "other_end r c"
  from cascade_step_Cons_cases[OF Cons.prems(1)]
  consider (seen) "cascade_step a c p rs (v, ci, q) = Inr (v', ci', q')"
    | (push) "cascade_step a c p rs (insert ?n v,
               ci @ [cascade_item a p ?n], q @ [(?n, p @ [?n])]) = Inr (v', ci', q')"
    | (skip) "cascade_step a c p rs (insert ?n v, ci, q) = Inr (v', ci', q')"
    by blast
  then show ?case
  proof cases
    case seen
    from Cons.IH[OF seen Cons.prems(2,3)] show ?thesis .
  next
    case push
    have "list_all (\<lambda>it. length (path it) \<le> 5) (ci @ [cascade_item a p ?n])"
      using Cons.prems(2,3) by (simp add: cascade_item_def)
    from Cons.IH[OF push Cons.prems(2) this] show ?thesis .
  next
    case skip
    from Cons.IH[OF skip Cons.prems(2,3)] show ?thesis .
  qed
qed

lemma cascade_loop_paths:
  "cascade_loop a q v ci = Inr res \<Longrightarrow> list_all (\<lambda>it. length (path it) \<le> 5) ci \<Longrightarrow>
   list_all (\<lambda>it. length (path it) \<le> 5) res"
proof (induction a q v ci rule: cascade_loop.induct)
  case (1 a visited cascade_impacts)
  then show ?case by simp
next
  case (2 a c p queue visited ci)
  show ?case
  proof (cases "length ci < 20")
    case False
    with "2.prems" show ?thesis by simp
  next
    case lt: True
    show ?thesis
    proof (cases "5 \<le> length p")
      case True
      with lt "2.prems" have "cascade_loop a queue visited ci = Inr res" by simp
      from "2.IH"(1)[OF lt True this "2.prems"(2)] show ?thesis .
    next
      case False
      with lt "2.prems"(1) obtain v' ci' q' where
        step: "cascade_step a c p (touching (relationships a) c) (visited, ci, queue) = Inr (v', ci', q')"
        and loop: "cascade_loop a q' v' ci' = Inr res"
        by (auto split: sum.splits)
      from False have "length p < 5" by simp
      from cascade_step_paths[OF step this "2.prems"(2)]
      have "list_all (\<lambda>it. length (path it) \<le> 5) ci'" .
      from "2.IH"(2)[OF lt False step refl refl loop this] show ?thesis .
    qed
  qed
qed

subsection \<open>Indexer: a reference to an entity that is not there\<close>


subsection \<open>Indexer: two runs on the same documents\<close>

lemma seq2_untimed:
  assumes "\<And>t t'. untimed_result (f t) = untimed_result (f' t')"
    and "\<And>t t'. untimed_result (g t) = untimed_result (g' t')"
  shows "untimed_result (seq2 f g t) = untimed_result (seq2 f' g' t')"
proof (cases "f t")
  case (Inl e)
  with assms(1)[of t t'] have "f' t' = Inl e"
    by (cases "f' t'") (auto simp: untimed_result_def)
  with Inl show ?thesis by (simp add: seq2_def untimed_result_def)
next
  case (Inr p)
  obtain ys t1 where p: "p = (ys, t1)" by (cases p)
  from Inr p assms(1)[of t t'] obtain zs t1' where
    f': "f' t' = Inr (zs, t1')" and eq: "map untimed ys = map untimed zs"
    by (cases "f' t'") (auto simp: untimed_result_def)
  show ?thesis
  proof (cases "g t1")
    case (Inl e)
    with assms(2)[of t1 t1'] have "g' t1' = Inl e"
      by (cases "g' t1'") (auto simp: untimed_result_def)
    with Inl Inr p f' show ?thesis by (simp add: seq2_def untimed_result_def)
  next
    case g: (Inr q)
    obtain ys2 t2 where q: "q = (ys2, t2)" by (cases q)
    from g q assms(2)[of t1 t1'] obtain zs2 t2' where
      g': "g' t1' = Inr (zs2, t2')" and eq2: "map untimed ys2 = map untimed zs2"
      by (cases "g' t1'") (auto simp: untimed_result_def)
    from Inr p f' g q g' eq eq2 show ?thesis
      by (simp add: seq2_def untimed_result_def)
  qed
qed

lemma for_concat_untimed:
  assumes "\<And>x t t'. untimed_result (b x t) = untimed_result (b' x t')"
  shows "untimed_result (for_concat b xs t) = untimed_result (for_concat b' xs t')"
proof (induction xs arbitrary: t t')
  case Nil
  show ?case by (simp add: untimed_result_def)
next
  case (Cons x xs)
  show ?case
    unfolding for_concat.simps
    by (rule seq2_untimed) (rule assms, rule Cons.IH)
qed

lemma section_loop_untimed:
  assumes "\<And>x t t'. untimed_result (b x t) = untimed_result (b' x t')"
  shows "untimed_result (section_loop data key b t) = untimed_result (section_loop data key b' t')"
proof -
  have nil: "untimed_result (Inr ([], t)) = untimed_result (Inr ([], t'))"
    by (simp add: untimed_result_def)
  show ?thesis
    unfolding section_loop_def bindE_def
    by (auto split: sum.splits simp: nil for_concat_untimed[of b b', OF assms])
qed

lemma fr_entity_untimed:
  "untimed_result (fr_entity dg clk x t) = untimed_result (fr_entity dg clk' x t')"
  by (cases x) (simp add: fr_entity_def untimed_result_def fields_from_def metadata_entry_def
        split: yval.splits)

lemma nfr_entity_untimed:
  "untimed_result (nfr_entity dg clk x t) = untimed_result (nfr_entity dg clk' x t')"
  by (cases x) (simp add: nfr_entity_def untimed_result_def fields_from_def metadata_entry_def
        split: yval.splits)

lemma uow_entity_untimed:
  "untimed_result (uow_entity dg clk x t) = untimed_result (uow_entity dg clk' x t')"
  by (cases x) (simp add: uow_entity_def untimed_result_def fields_from_def metadata_entry_def
        split: yval.splits)

lemma contract_entity_untimed:
  "untimed_result (contract_entity dg clk x t) = untimed_result (contract_entity dg clk' x t')"
  by (cases x) (simp add: contract_entity_def untimed_result_def fields_from_def
        metadata_entry_def split: yval.splits)

lemma extension_entity_untimed:
  "untimed_result (extension_entity dg clk c x t) = untimed_result (extension_entity dg clk' c x t')"
  by (cases x) (simp add: extension_entity_def untimed_result_def fields_from_def
        metadata_entry_def split: yval.splits)

lemma extensions_untimed:
  "untimed_result ((\<lambda>(category, extensions) t.
                   bindE (py_items extensions)
                     (\<lambda>kvs. for_concat (extension_entity dg clk category) kvs t)) x t) =
   untimed_result ((\<lambda>(category, extensions) t.
                   bindE (py_items extensions)
                     (\<lambda>kvs. for_concat (extension_entity dg clk' category) kvs t)) x t')"
proof (cases x)
  case (Pair c exts)
  show ?thesis
  proof (cases "py_items exts")
    case (Inl e)
    with Pair show ?thesis by (simp add: bindE_def)
  next
    case (Inr kvs)
    with Pair show ?thesis
      by (simp add: bindE_def for_concat_untimed[OF extension_entity_untimed])
  qed
qed

lemma extract_entities_untimed:
  "untimed_result (extract_entities dg clk ssot_data t) =
   untimed_result (extract_entities dg clk' ssot_data t')"
proof -
  have nil: "\<And>t t'. untimed_result (Inr ([], t)) = untimed_result (Inr ([], t'))"
    by (simp add: untimed_result_def)
  have fw: "\<And>fr_data t t'.
     untimed_result (seq2 (section_loop fr_data ''functional_requirements'' (fr_entity dg clk))
        (seq2 (section_loop fr_data ''non_functional_requirements'' (nfr_entity dg clk))
              (section_loop fr_data ''units_of_work'' (uow_entity dg clk))) t) =
     untimed_result (seq2 (section_loop fr_data ''functional_requirements'' (fr_entity dg clk'))
        (seq2 (section_loop fr_data ''non_functional_requirements'' (nfr_entity dg clk'))
              (section_loop fr_data ''units_of_work'' (uow_entity dg clk'))) t')"
    by (intro seq2_untimed section_loop_untimed fr_entity_untimed nfr_entity_untimed
          uow_entity_untimed)
  show ?thesis
    unfolding extract_entities_def
  proof (rule seq2_untimed)
    fix t t'
    show "untimed_result (case map_of ssot_data ''framework_requirements'' of
                 None \<Rightarrow> Inr ([], t)
               | Some fr_data \<Rightarrow>
                   seq2 (section_loop fr_data ''functional_requirements'' (fr_entity dg clk))
                     (seq2 (section_loop fr_data ''non_functional_requirements'' (nfr_entity dg clk))
                           (section_loop fr_data ''units_of_work'' (uow_entity dg clk))) t) =
          untimed_result (case map_of ssot_data ''framework_requirements'' of
                 None \<Rightarrow> Inr ([], t')
               | Some fr_data \<Rightarrow>
                   seq2 (section_loop fr_data ''functional_requirements'' (fr_entity dg clk'))
                     (seq2 (section_loop fr_data ''non_functional_requirements'' (nfr_entity dg clk'))
                           (section_loop fr_data ''units_of_work'' (uow_entity dg clk'))) t')"
      by (cases "map_of ssot_data ''framework_requirements''") (simp_all add: nil fw)
  next
    fix t t'
    show "untimed_result
            (seq2 (section_loop (YDict ssot_data) ''contracts'' (contract_entity dg clk))
               (section_loop (YDict ssot_data) ''extensions''
                 (\<lambda>(category, extensions) t.
                     bindE (py_items extensions)
                      (\<lambda>kvs. for_concat (extension_entity dg clk category) kvs t))) t) =
          untimed_result
            (seq2 (section_loop (YDict ssot_data) ''contracts'' (contract_entity dg clk'))
               (section_loop (YDict ssot_data) ''extensions''
                 (\<lambda>(category, extensions) t.
                     bindE (py_items extensions)
                      (\<lambda>kvs. for_concat (extension_entity dg clk' category) kvs t))) t')"
      by (intro seq2_untimed section_loop_untimed contract_entity_untimed extensions_untimed)
  qed
qed

lemma relationship_untimed:
  "untimed (relationship clk t src tgt ty f) = untimed (relationship clk' t' src tgt ty f)"
  by (simp add: relationship_def)

lemma uow_relationships_untimed:
  "untimed_result (uow_relationships clk x t) = untimed_result (uow_relationships clk' x t')"
proof (cases x)
  case (Pair uow_id uow_spec)
  have one: "\<And>ty r t t'.
      untimed_result (Inr ([relationship clk t (YStr uow_id) r ty ''framework_requirements''], Suc t)) =
      untimed_result (Inr ([relationship clk' t' (YStr uow_id) r ty ''framework_requirements''], Suc t'))"
    by (simp add: untimed_result_def relationship_def)
  have deps: "\<And>t t'.
      untimed_result (bindE (py_get uow_spec ''dependencies'' (YList [])) (\<lambda>dependencies.
                  bindE (py_iter dependencies) (\<lambda>dep_ids.
                    for_concat
                      (\<lambda>dep_id t. Inr ([relationship clk t (YStr uow_id) dep_id ''depends_on''
                                           ''framework_requirements''], Suc t)) dep_ids t))) =
      untimed_result (bindE (py_get uow_spec ''dependencies'' (YList [])) (\<lambda>dependencies.
                  bindE (py_iter dependencies) (\<lambda>dep_ids.
                    for_concat
                      (\<lambda>dep_id t. Inr ([relationship clk' t (YStr uow_id) dep_id ''depends_on''
                                           ''framework_requirements''], Suc t)) dep_ids t')))"
    by (auto simp: bindE_def split: sum.splits intro!: for_concat_untimed one)
  show ?thesis
    unfolding Pair uow_relationships_def
    by (auto simp: bindE_def split: sum.splits intro!: seq2_untimed for_concat_untimed one deps)
qed

lemma contract_relationships_untimed:
  "untimed_result (contract_relationships clk x t) =
   untimed_result (contract_relationships clk' x t')"
  by (cases x)
     (auto simp: contract_relationships_def bindE_def untimed_result_def relationship_def
           split: sum.splits)

lemma extract_relationships_untimed:
  "untimed_result (extract_relationships clk ssot_data t) =
   untimed_result (extract_relationships clk' ssot_data t')"
proof -
  have nil: "\<And>t t'. untimed_result (Inr ([], t)) = untimed_result (Inr ([], t'))"
    by (simp add: untimed_result_def)
  show ?thesis
    unfolding extract_relationships_def
  proof (rule seq2_untimed)
    fix t t'
    show "untimed_result (case map_of ssot_data ''framework_requirements'' of
                 None \<Rightarrow> Inr ([], t)
               | Some fr_data \<Rightarrow> section_loop fr_data ''units_of_work'' (uow_relationships clk) t) =
          untimed_result (case map_of ssot_data ''framework_requirements'' of
                 None \<Rightarrow> Inr ([], t')
               | Some fr_data \<Rightarrow> section_loop fr_data ''units_of_work'' (uow_relationships clk') t')"
      by (cases "map_of ssot_data ''framework_requirements''")
         (simp_all add: nil section_loop_untimed[OF uow_relationships_untimed])
  next
    fix t t'
    show "untimed_result (section_loop (YDict ssot_data) ''contracts'' (contract_relationships clk) t) =
          untimed_result (section_loop (YDict ssot_data) ''contracts'' (contract_relationships clk') t')"
      by (rule section_loop_untimed) (rule contract_relationships_untimed)
  qed
qed

lemma map_of_map_metadata:
  "map_of (map (\<lambda>(k, v). if k = m then (k, f v) else (k, v)) kvs) m = map_option f (map_of kvs m)"
  by (induction kvs) auto

lemma map_of_filter_keep:
  "P k \<Longrightarrow> map_of (filter (\<lambda>(k, v). P k) m) k = map_of m k"
  by (induction m) auto

lemma stored_hash_untimed: "stored_hash (untimed e) = stored_hash e"
proof (cases e)
  case (YDict kvs)
  show ?thesis
  proof (cases "map_of kvs ''metadata''")
    case None
    with YDict show ?thesis by (simp add: dget_def map_of_map_metadata)
  next
    case (Some md)
    have "map_of (filter (\<lambda>(k, v). k \<noteq> ''last_updated'' \<and> k \<noteq> ''created'') m) ''hash''
            = map_of m ''hash''" for m :: jdict
      by (rule map_of_filter_keep[where P = "\<lambda>k. k \<noteq> ''last_updated'' \<and> k \<noteq> ''created''"]) simp
    with YDict Some show ?thesis
      by (cases md) (simp_all add: dget_def map_of_map_metadata)
  qed
qed simp_all

lemma stored_hashes_untimed:
  "stored_hashes r = map_sum id (map stored_hash) (untimed_result r)"
  by (cases r) (auto simp: stored_hashes_def untimed_result_def stored_hash_untimed)

text \<open>
  Claim C1, as amended. Two runs of the Indexer on the same documents, whatever their
  clocks read, raise the same exception or produce the same entities and the same
  relationships once the timestamps (\<open>metadata.last_updated\<close>, \<open>metadata.created\<close>) are
  left out, and the content hashes stored on the entities are the same.
\<close>

theorem index_twice_same_but_timestamps:
  "untimed_result (extract_entities dg clk ssot_data t) =
     untimed_result (extract_entities dg clk' ssot_data t') \<and>
   untimed_result (extract_relationships clk ssot_data t) =
     untimed_result (extract_relationships clk' ssot_data t') \<and>
   stored_hashes (extract_entities dg clk ssot_data t) =
     stored_hashes (extract_entities dg clk' ssot_data t')"
  by (simp add: stored_hashes_untimed extract_entities_untimed[of dg clk ssot_data t clk' t']
        extract_relationships_untimed[of clk ssot_data t clk' t'])

text \<open>
  Claim C1 as stated fails: the entity of a run carries the clock reading of that run,
  so two runs one second apart give different entities for the same requirement.
\<close>

theorem index_twice_counterexample:
  "\<forall>dg. extract_entities dg (\<lambda>n. ''2026-01-01T00:00:00'') one_requirement 0 \<noteq>
        extract_entities dg (\<lambda>n. ''2026-01-01T00:00:01'') one_requirement 0"
  by (simp add: extract_entities_def one_requirement_def seq2_def section_loop_def bindE_def
        ditem_def fr_entity_def fields_from_def metadata_entry_def)

subsection \<open>Indexer: writing the index\<close>





subsection \<open>Sync Engine: detecting changes\<close>









































subsection \<open>Query Engine: an empty query text\<close>

lemma detect_query_type_empty: "detect_query_type '''' = ''keyword''"
  by (simp add: detect_query_type_def lower_def)

lemma process_keyword_query_empty: "process_keyword_query q '''' = Inr []"
  by (simp add: process_keyword_query_def py_split_def bindE_def)

lemma find_entity_ids_empty: "find_entity_ids '''' = []"
  by (simp add: find_entity_ids_def)

lemma process_pattern_query_empty: "process_pattern_query q '''' = search_patterns q None"
  by (simp add: process_pattern_query_def pattern_keywords_def lower_def)

text \<open>
  Claim C5, as amended. For every query type argument, Query with empty text returns a
  result of the ordinary kind, and never an InvalidQuery error: for the types pattern,
  coverage and gap what the unfiltered pattern search or the coverage analysis gives
  (the text plays no part), and for every other type, recognised or not, success with an
  empty result list, a count of 0 and no error.
\<close>

theorem empty_query_text:
  "query q now '''' qtype =
     Some (query_outcome now '''' (if qtype = ''auto'' then ''keyword'' else qtype)
       (if qtype = ''pattern'' then search_patterns q None
        else if qtype = ''coverage'' \<or> qtype = ''gap''
          then bindE (analyze_coverage_gaps q) (\<lambda>gaps. Inr [CoverageHit gaps])
        else Inr []))"
  by (simp add: query_def query_processor_def detect_query_type_empty
        process_keyword_query_empty process_relationship_query_def find_entity_ids_empty
        process_pattern_query_empty process_impact_query_def process_coverage_query_def
        process_gap_query_def)

text \<open>
  Claim C5 as stated fails: a keyword query with empty text is a success with no
  results.
\<close>

theorem empty_query_text_counterexample:
  "\<forall>q now. query q now '''' ''keyword'' =
     Some \<lparr>query_text = '''', results = [],
           metadata = \<lparr>error = None, query_type = ''keyword'', timestamp = now,
                       results_count = Some 0\<rparr>\<rparr>"
  by (simp add: query_def query_processor_def process_keyword_query_empty query_outcome_def)

subsection \<open>Reading an index store without files\<close>

lemma dependents_loop_Nil: "dependents_loop q i [] = Some (Inr [])"
  by (subst dependents_loop.simps) simp

lemma relationship_loop_empty:
  "relationships q = [] \<Longrightarrow> entities q = [] \<Longrightarrow> relationship_loop q idents = Some (Inr [])"
  by (induction idents)
     (simp_all add: find_implementing_uows_def direct_implementers_def dependents_loop_Nil)

lemma dict_set_all: "list_all P d \<Longrightarrow> P (k, v) \<Longrightarrow> list_all P (dict_set d k v)"
  by (induction d) auto

lemma shortest_loop_no_relationships:
  "shortest_loop [] target [(c, p)] visited = Inr None"
  by (simp add: connected_to_def touching_def)

lemma calculate_entity_impact_empty:
  "relationships a = [] \<Longrightarrow> src \<noteq> target \<Longrightarrow> calculate_entity_impact a src target = Inr ''none''"
  by (simp add: calculate_entity_impact_def find_shortest_path_def bindE_def
        connected_to_def touching_def)

lemma matrix_row_empty:
  "relationships a = [] \<Longrightarrow> list_all (\<lambda>(t, level). level = ''none'') row \<Longrightarrow>
   \<exists>row'. matrix_row a src targets row = Inr row' \<and>
          list_all (\<lambda>(t, level). level = ''none'') row'"
proof (induction targets arbitrary: row)
  case Nil
  then show ?case by simp
next
  case (Cons t targets)
  show ?case
  proof (cases "src = t")
    case True
    with Cons show ?thesis by simp
  next
    case False
    have "list_all (\<lambda>(t, level). level = ''none'') (dict_set row t ''none'')"
      using Cons.prems(2) by (simp add: dict_set_all)
    from Cons.IH[OF Cons.prems(1) this] False Cons.prems(1) show ?thesis
      by (simp add: bindE_def calculate_entity_impact_empty)
  qed
qed

lemma matrix_loop_empty:
  "relationships a = [] \<Longrightarrow>
   list_all (\<lambda>(s, row). list_all (\<lambda>(t, level). level = ''none'') row) m \<Longrightarrow>
   \<exists>m'. matrix_loop a ids srcs m = Inr m' \<and>
         list_all (\<lambda>(s, row). list_all (\<lambda>(t, level). level = ''none'') row) m'"
proof (induction srcs arbitrary: m)
  case Nil
  then show ?case by simp
next
  case (Cons s srcs)
  from matrix_row_empty[OF Cons.prems(1), of "[]" s ids] obtain row where
    row: "matrix_row a s ids [] = Inr row" "list_all (\<lambda>(t, level). level = ''none'') row"
    by auto
  have "list_all (\<lambda>(s, row). list_all (\<lambda>(t, level). level = ''none'') row) (dict_set m s row)"
    using Cons.prems(2) row(2) by (simp add: dict_set_all)
  from Cons.IH[OF Cons.prems(1) this] row(1) show ?case
    by (simp add: bindE_def)
qed

lemma load_absent: "s name = None \<Longrightarrow> load_json_list s name = Inr []"
  by (simp add: load_json_list_def)

text \<open>
  Claim C10, as amended. When the index store has neither \<open>entities.json\<close> nor
  \<open>relationships.json\<close>, the Query Engine and the Impact Analyzer start with no
  entities and no relationships, and every read operation returns without an
  exception: a keyword or relationship query gives an empty result list; a coverage or
  gap query gives one result, the analysis whose four gap lists are empty; an impact
  query gives one result for each entity id in the text, saying that the entity was not
  found; the impact matrix says none in every cell; the critical-dependency search
  gives an empty list.
\<close>

theorem absent_index_reads:
  assumes "s ''entities.json'' = None" and "s ''relationships.json'' = None"
  shows "query_engine_init s kn features = Inr (empty_engine kn features) \<and>
         analyzer_load s = Inr empty_analyzer \<and>
         query (empty_engine kn features) now text ''keyword'' =
           Some (query_outcome now text ''keyword'' (Inr [])) \<and>
         query (empty_engine kn features) now text ''relationship'' =
           Some (query_outcome now text ''relationship'' (Inr [])) \<and>
         query (empty_engine kn features) now text ''coverage'' =
           Some (query_outcome now text ''coverage'' (Inr [CoverageHit no_gaps])) \<and>
         query (empty_engine kn features) now text ''gap'' =
           Some (query_outcome now text ''gap'' (Inr [CoverageHit no_gaps])) \<and>
         query (empty_engine kn features) now text ''impact'' =
           Some (query_outcome now text ''impact''
             (Inr (map (\<lambda>ident. ImpactHit ident
                      \<lparr>analysis_entity_id = ident, analysis_change_type = ''modification'',
                       analysis_direct = [], analysis_indirect = [], risk_level = ''low'',
                       analysis_recommendations = [],
                       analysis_error = Some (NotFound ident)\<rparr>) (find_entity_ids text)))) \<and>
         analyze_coverage_gaps (empty_engine kn features) = Inr no_gaps \<and>
         (\<exists>m. generate_impact_matrix empty_analyzer ids = Inr m \<and>
              list_all (\<lambda>(s, row). list_all (\<lambda>(t, level). level = ''none'') row) m) \<and>
         find_critical_dependencies empty_analyzer = Inr []"
proof -
  have init: "query_engine_init s kn features = Inr (empty_engine kn features)"
    using assms by (simp add: query_engine_init_def load_absent bindE_def empty_engine_def)
  have load: "analyzer_load s = Inr empty_analyzer"
    using assms
    by (simp add: analyzer_load_def load_absent bindE_def analyzer_init_def empty_analyzer_def)
  have kw: "process_keyword_query (empty_engine kn features) text = Inr []"
  proof -
    have "keyword_loop (empty_engine kn features) ws = Inr []" for ws
      by (induction ws)
         (simp_all add: find_requirements_by_keyword_def empty_engine_def bindE_def)
    then show ?thesis by (simp add: process_keyword_query_def bindE_def)
  qed
  have rel: "process_relationship_query (empty_engine kn features) text = Some (Inr [])"
    by (simp add: process_relationship_query_def relationship_loop_empty empty_engine_def)
  have gaps: "analyze_coverage_gaps (empty_engine kn features) = Inr no_gaps"
    by (simp add: analyze_coverage_gaps_def empty_engine_def bindE_def no_gaps_def)
  have imp: "analyze_impact (empty_engine kn features) ident ''modification'' =
               \<lparr>analysis_entity_id = ident, analysis_change_type = ''modification'',
                analysis_direct = [], analysis_indirect = [], risk_level = ''low'',
                analysis_recommendations = [],
                analysis_error = Some (NotFound ident)\<rparr>" for ident
    by (simp add: analyze_impact_def empty_engine_def get_entity_by_id_def)
  have q1: "query (empty_engine kn features) now text ''keyword'' =
           Some (query_outcome now text ''keyword'' (Inr []))"
    by (simp add: query_def query_processor_def kw)
  have q2: "query (empty_engine kn features) now text ''relationship'' =
           Some (query_outcome now text ''relationship'' (Inr []))"
    by (simp add: query_def query_processor_def rel)
  have q3: "query (empty_engine kn features) now text ''coverage'' =
           Some (query_outcome now text ''coverage'' (Inr [CoverageHit no_gaps]))"
    by (simp add: query_def query_processor_def process_coverage_query_def gaps bindE_def)
  have q4: "query (empty_engine kn features) now text ''gap'' =
           Some (query_outcome now text ''gap'' (Inr [CoverageHit no_gaps]))"
    by (simp add: query_def query_processor_def process_gap_query_def
          process_coverage_query_def gaps bindE_def)
  have q5: "query (empty_engine kn features) now text ''impact'' =
           Some (query_outcome now text ''impact''
             (Inr (map (\<lambda>ident. ImpactHit ident
                      \<lparr>analysis_entity_id = ident, analysis_change_type = ''modification'',
                       analysis_direct = [], analysis_indirect = [], risk_level = ''low'',
                       analysis_recommendations = [],
                       analysis_error = Some (NotFound ident)\<rparr>) (find_entity_ids text))))"
    by (simp add: query_def query_processor_def process_impact_query_def imp)
  have mx: "\<exists>m. generate_impact_matrix empty_analyzer ids = Inr m \<and>
              list_all (\<lambda>(s, row). list_all (\<lambda>(t, level). level = ''none'') row) m"
    unfolding generate_impact_matrix_def
    by (rule matrix_loop_empty) (simp_all add: empty_analyzer_def)
  have cd: "find_critical_dependencies empty_analyzer = Inr []"
    by (simp add: find_critical_dependencies_def empty_analyzer_def bindE_def sort_desc_def)
  from init load q1 q2 q3 q4 q5 gaps mx cd show ?thesis by (intro conjI)
qed

text \<open>
  Claim C10 as stated fails: over the empty graph a coverage query does not return
  empty results, it returns one result.
\<close>

theorem absent_index_reads_counterexample:
  "\<forall>kn features now text.
     map_option (\<lambda>r. length (results r)) (query (empty_engine kn features) now text ''coverage'')
       = Some 1"
  by (simp add: query_def query_processor_def process_coverage_query_def
        analyze_coverage_gaps_def empty_engine_def bindE_def query_outcome_def)

theorem absent_index_reads_witness:
  "(Map.empty :: store) ''entities.json'' = None \<and>
   (Map.empty :: store) ''relationships.json'' = None \<and>
   query_engine_init Map.empty [] None = Inr (empty_engine [] None) \<and>
   analyzer_load Map.empty = Inr empty_analyzer \<and>
   find_critical_dependencies empty_analyzer = Inr []"
  using absent_index_reads[of Map.empty "[]" None] by simp

end
